theory Spec2Isabelle
  imports Complex_Main
begin

section \<open>Go values used by package config\<close>

subsection \<open>float64\<close>

text \<open>
  A float64 is modelled by the value it denotes: a finite float64 by the exact rational
  it stands for (every finite float64 is a dyadic rational), negative zero, the two
  infinities and NaN by constructors of their own. The program only compares and
  prints float64 values, and both depend on the denoted value alone.
\<close>

datatype float64 = Finite rat | NegZero | PosInf | NegInf | NaN

text \<open>The rational a float64 other than an infinity or NaN stands for.\<close>

fun f64_val :: "float64 \<Rightarrow> rat" where
  "f64_val (Finite q) = q"
| "f64_val _ = 0"

definition is_NaN :: "float64 \<Rightarrow> bool" where
  "is_NaN x = (case x of NaN \<Rightarrow> True | _ \<Rightarrow> False)"

text \<open>
  Go's \<^verbatim>\<open>x < y\<close> on float64 (IEEE 754): false as soon as one side is NaN;
  minus infinity is below and plus infinity above every other number; negative zero
  equals zero.
\<close>

fun f64_lt :: "float64 \<Rightarrow> float64 \<Rightarrow> bool" where
  "f64_lt NaN y = False"
| "f64_lt x NaN = False"
| "f64_lt PosInf y = False"
| "f64_lt x PosInf = True"
| "f64_lt x NegInf = False"
| "f64_lt NegInf y = True"
| "f64_lt x y = (f64_val x < f64_val y)"

text \<open>Go's \<^verbatim>\<open>x <= y\<close>, \<^verbatim>\<open>x > y\<close> and \<^verbatim>\<open>x >= y\<close>.\<close>

definition f64_le :: "float64 \<Rightarrow> float64 \<Rightarrow> bool" where
  "f64_le x y = (\<not> is_NaN x \<and> \<not> is_NaN y \<and> \<not> f64_lt y x)"

definition f64_gt :: "float64 \<Rightarrow> float64 \<Rightarrow> bool" where
  "f64_gt x y = f64_lt y x"

definition f64_ge :: "float64 \<Rightarrow> float64 \<Rightarrow> bool" where
  "f64_ge x y = f64_le y x"

text \<open>
  The float64 constants of the source. 80.0, 60.0, 40.0, 20.0 and 1.0 are floats
  themselves; 1.2, 0.8 and 0.6 are not, and the compiler takes the nearest float64:
  a 53-bit numerator over a power of two.
\<close>

definition lit_80 :: float64 where "lit_80 = Finite 80"
definition lit_60 :: float64 where "lit_60 = Finite 60"
definition lit_40 :: float64 where "lit_40 = Finite 40"
definition lit_20 :: float64 where "lit_20 = Finite 20"
definition lit_1_2 :: float64 where "lit_1_2 = Finite (5404319552844595 / 2 ^ 52)"
definition lit_1_0 :: float64 where "lit_1_0 = Finite 1"
definition lit_0_8 :: float64 where "lit_0_8 = Finite (7205759403792794 / 2 ^ 53)"
definition lit_0_6 :: float64 where "lit_0_6 = Finite (5404319552844595 / 2 ^ 53)"

text \<open>The float64 nearest to 79.9, the value of the spec's example.\<close>

definition lit_79_9 :: float64 where "lit_79_9 = Finite (5622462659795354 / 2 ^ 46)"

text \<open>
  \<open>m / 2 ^ k\<close> is the float64 nearest to \<open>x\<close>: \<open>m\<close> has 53 binary digits and \<open>x\<close> is
  less than half a unit of the last digit away.
\<close>

definition nearest_float64 :: "rat \<Rightarrow> int \<Rightarrow> nat \<Rightarrow> bool" where
  "nearest_float64 x m k =
     (2 ^ 52 \<le> m \<and> m < 2 ^ 53 \<and> \<bar>x - of_int m / 2 ^ k\<bar> * 2 < 1 / 2 ^ k)"

subsection \<open>int64, time.Duration and the conversions\<close>

text \<open>
  A \<^verbatim>\<open>time.Duration\<close> is an int64 count of nanoseconds. The program compares
  durations and converts them; it never adds or multiplies them at run time, so a
  duration is an \<open>int\<close> within the int64 range and no wrap-around can occur.
\<close>

type_synonym Duration = int

definition Minute :: Duration where
  "Minute = 60 * 1000000000"

definition int64_range :: "int \<Rightarrow> bool" where
  "int64_range n = (- (2 ^ 63) \<le> n \<and> n < 2 ^ 63)"

text \<open>The number of binary digits of a natural number.\<close>

fun blen :: "nat \<Rightarrow> nat" where
  "blen n = (if n = 0 then 0 else Suc (blen (n div 2)))"

declare blen.simps [simp del]

text \<open>
  Go's conversion \<^verbatim>\<open>float64(a)\<close> of an int64: the nearest float64, ties to the
  even 53-bit significand. \<open>k\<close> is the number of low bits that do not fit.
\<close>

definition float64_of_int64 :: "int \<Rightarrow> float64" where
  "float64_of_int64 n =
     (let a = nat \<bar>n\<bar>;
          k = blen a - 53;
          q = a div 2 ^ k;
          r = a mod 2 ^ k;
          m = (if 2 ^ k < 2 * r \<or> (2 * r = 2 ^ k \<and> odd q) then q + 1 else q) * 2 ^ k
      in Finite (of_int (if n < 0 then - int m else int m)))"

text \<open>
  Go's conversion \<^verbatim>\<open>time.Duration(t)\<close> of a float64: the fraction is discarded
  (truncation towards zero); when the result does not fit an int64 (or \<open>t\<close> is an
  infinity or NaN) the language leaves the value to the implementation, here the
  parameter \<open>impl\<close>.
\<close>

definition trunc :: "rat \<Rightarrow> int" where
  "trunc q = (if 0 \<le> q then \<lfloor>q\<rfloor> else \<lceil>q\<rceil>)"

definition Duration_of_float64 :: "(float64 \<Rightarrow> int) \<Rightarrow> float64 \<Rightarrow> Duration" where
  "Duration_of_float64 impl t =
     (case t of
        Finite q \<Rightarrow> if int64_range (trunc q) then trunc q else impl t
      | NegZero \<Rightarrow> 0
      | _ \<Rightarrow> impl t)"

subsection \<open>Strings, errors and formatting\<close>

text \<open>A Go \<^verbatim>\<open>error\<close> is modelled by its message; \<^verbatim>\<open>nil\<close> is \<open>None\<close>.\<close>

datatype error = Error string

text \<open>\<^verbatim>\<open>strings.HasPrefix\<close>, \<^verbatim>\<open>HasSuffix\<close>, \<^verbatim>\<open>TrimPrefix\<close>, \<^verbatim>\<open>TrimSuffix\<close>
  and \<^verbatim>\<open>Contains\<close> of the Go library, on byte strings.\<close>

definition HasPrefix :: "string \<Rightarrow> string \<Rightarrow> bool" where
  "HasPrefix s p = (length p \<le> length s \<and> take (length p) s = p)"

definition HasSuffix :: "string \<Rightarrow> string \<Rightarrow> bool" where
  "HasSuffix s x = (length x \<le> length s \<and> drop (length s - length x) s = x)"

definition TrimPrefix :: "string \<Rightarrow> string \<Rightarrow> string" where
  "TrimPrefix s p = (if HasPrefix s p then drop (length p) s else s)"

definition TrimSuffix :: "string \<Rightarrow> string \<Rightarrow> string" where
  "TrimSuffix s x = (if HasSuffix s x then take (length s - length x) s else s)"

fun Contains :: "string \<Rightarrow> string \<Rightarrow> bool" where
  "Contains [] sub = (sub = [])"
| "Contains (c # s) sub = (HasPrefix (c # s) sub \<or> Contains s sub)"

text \<open>
  Decimal digits of a natural number, as \<^verbatim>\<open>%d\<close> prints them. \<open>digit_char\<close> is
  only applied to a number below ten.
\<close>

definition digit_char :: "nat \<Rightarrow> char" where
  "digit_char d = ''0123456789'' ! d"

fun show_nat :: "nat \<Rightarrow> string" where
  "show_nat n = (if n < 10 then [digit_char n] else show_nat (n div 10) @ [digit_char (n mod 10)])"

declare show_nat.simps [simp del]

text \<open>Rounding to the nearest integer, ties to the even one.\<close>

definition round_half_even :: "rat \<Rightarrow> int" where
  "round_half_even m =
     (let f = \<lfloor>m\<rfloor>; r = m - of_int f
      in if r < 1 / 2 then f else if 1 / 2 < r then f + 1 else if even f then f else f + 1)"

text \<open>
  The verb \<^verbatim>\<open>%.1f\<close> of package fmt on a float64: the exact value rounded to one
  decimal, ties to even, with a minus sign for a negative number (negative zero
  included); \<^verbatim>\<open>NaN\<close>, \<^verbatim>\<open>+Inf\<close> and \<^verbatim>\<open>-Inf\<close> for the special values.
\<close>

definition fmt_f1 :: "float64 \<Rightarrow> string" where
  "fmt_f1 x =
     (case x of
        NaN \<Rightarrow> ''NaN''
      | PosInf \<Rightarrow> ''+Inf''
      | NegInf \<Rightarrow> ''-Inf''
      | NegZero \<Rightarrow> ''-0.0''
      | Finite q \<Rightarrow>
          (let n = nat (round_half_even (\<bar>q\<bar> * 10))
           in (if q < 0 then ''-'' else '''') @ show_nat (n div 10) @ ''.'' @ [digit_char (n mod 10)]))"

subsection \<open>Library functions the package calls\<close>

text \<open>
  \<^verbatim>\<open>strconv.ParseFloat(s, 64)\<close>, \<^verbatim>\<open>duration.Parse\<close> (github.com/k1LoW/duration),
  the method \<^verbatim>\<open>String\<close> of \<^verbatim>\<open>time.Duration\<close> (what \<^verbatim>\<open>%v\<close> prints) and the
  implementation's choice in an out-of-range float conversion are not code of this
  package. The model takes them as parameters, so every theorem holds whatever they
  compute.
\<close>

record golib =
  ParseFloat :: "string \<Rightarrow> error + float64"
  duration_Parse :: "string \<Rightarrow> error + Duration"
  Duration_String :: "Duration \<Rightarrow> string"
  conv_impl :: "float64 \<Rightarrow> int"

section \<open>Acceptability checks (config.go, lines 190 to 230)\<close>

definition coverageAcceptable :: "golib \<Rightarrow> float64 \<Rightarrow> string \<Rightarrow> error option" where
  "coverageAcceptable L cov cond =
     (if cond = [] then None
      else case ParseFloat L (TrimSuffix cond ''%'') of
        Inl err \<Rightarrow> Some err
      | Inr a \<Rightarrow>
          if f64_lt cov a
          then Some (Error (''code coverage is '' @ fmt_f1 cov
                 @ ''%, which is below the accepted '' @ fmt_f1 a @ ''%''))
          else None)"

definition codeToTestRatioAcceptable :: "golib \<Rightarrow> float64 \<Rightarrow> string \<Rightarrow> error option" where
  "codeToTestRatioAcceptable L ratio cond =
     (if cond = [] then None
      else case ParseFloat L (TrimPrefix cond ''1:'') of
        Inl err \<Rightarrow> Some err
      | Inr a \<Rightarrow>
          if f64_lt ratio a
          then Some (Error (''code to test ratio is 1:'' @ fmt_f1 ratio
                 @ '', which is below the accepted 1:'' @ fmt_f1 a))
          else None)"

definition testExecutionTimeAcceptable :: "golib \<Rightarrow> float64 \<Rightarrow> string \<Rightarrow> error option" where
  "testExecutionTimeAcceptable L t cond =
     (if cond = [] then None
      else case duration_Parse L cond of
        Inl err \<Rightarrow> Some err
      | Inr a \<Rightarrow>
          if f64_gt t (float64_of_int64 a)
          then Some (Error (''test execution time is ''
                 @ Duration_String L (Duration_of_float64 (conv_impl L) t)
                 @ '', which is above the accepted '' @ Duration_String L a))
          else None)"

section \<open>Badge colours (config.go, lines 23 to 30 and 232 to 275)\<close>

definition green :: string where "green = ''#97CA00''"
definition yellowgreen :: string where "yellowgreen = ''#A4A61D''"
definition yellow :: string where "yellow = ''#DFB317''"
definition orange :: string where "orange = ''#FE7D37''"
definition red :: string where "red = ''#E05D44''"

text \<open>The three methods do not read their receiver, so the model leaves it out.\<close>

definition CoverageColor :: "float64 \<Rightarrow> string" where
  "CoverageColor cover =
     (if f64_ge cover lit_80 then green
      else if f64_ge cover lit_60 then yellowgreen
      else if f64_ge cover lit_40 then yellow
      else if f64_ge cover lit_20 then orange
      else red)"

definition CodeToTestRatioColor :: "float64 \<Rightarrow> string" where
  "CodeToTestRatioColor ratio =
     (if f64_ge ratio lit_1_2 then green
      else if f64_ge ratio lit_1_0 then yellowgreen
      else if f64_ge ratio lit_0_8 then yellow
      else if f64_ge ratio lit_0_6 then orange
      else red)"

definition TestExecutionTimeColor :: "Duration \<Rightarrow> string" where
  "TestExecutionTimeColor d =
     (if d < 5 * Minute then green
      else if d < 10 * Minute then yellowgreen
      else if d < 15 * Minute then yellow
      else if d < 20 * Minute then orange
      else red)"

text \<open>Exactly one of a list of conditions holds.\<close>

definition exactly_one :: "bool list \<Rightarrow> bool" where
  "exactly_one bs = (length (filter id bs) = 1)"

section \<open>The environment map (config.go, lines 337 to 352)\<close>

text \<open>
  \<^verbatim>\<open>strings.SplitN(kv, "=", 2)\<close>: the text before the first \<open>=\<close> and the text
  after it, or the string alone when it has no \<open>=\<close>. The result is never empty.
\<close>

definition SplitN_eq_2 :: "string \<Rightarrow> string list" where
  "SplitN_eq_2 kv =
     (if CHR ''='' \<in> set kv
      then [takeWhile (\<lambda>c. c \<noteq> CHR ''='') kv, tl (dropWhile (\<lambda>c. c \<noteq> CHR ''='') kv)]
      else [kv])"

text \<open>
  The loop over \<^verbatim>\<open>os.Environ()\<close>, with the map built so far. An assignment to a key
  the map already holds replaces its value, as Go's map assignment does.
\<close>

fun envMap_loop :: "string list \<Rightarrow> (string \<rightharpoonup> string) \<Rightarrow> (string \<rightharpoonup> string)" where
  "envMap_loop [] m = m"
| "envMap_loop (kv # rest) m =
     (if \<not> Contains kv ''='' then envMap_loop rest m
      else
        let parts = SplitN_eq_2 kv;
            k = parts ! 0
        in if length parts < 2 then envMap_loop rest (m(k \<mapsto> []))
           else envMap_loop rest (m(k \<mapsto> parts ! 1)))"

text \<open>\<open>environ\<close> is what \<^verbatim>\<open>os.Environ()\<close> returns.\<close>

definition envMap :: "string list \<Rightarrow> (string \<rightharpoonup> string)" where
  "envMap environ = envMap_loop environ Map.empty"

section \<open>The gate CheckIf (config.go, lines 277 to 335)\<close>

subsection \<open>What CheckIf reads and calls\<close>

text \<open>
  Package gh, package expr, the clock and the process environment are not code of this
  package. The decoded event, the parsed repository and the client are the values of
  package gh that CheckIf handles: of an event its name and payload, of a repository
  its owner and name, of a client only its identity.
\<close>

datatype payload = EventPayload string

record GitHubEvent =
  Name :: string
  Payload :: payload

record gh_Repository =
  Owner :: string
  Repo :: string

datatype Gh = GhClient nat

text \<open>The fields of \<^verbatim>\<open>time.Now().UTC()\<close> that CheckIf reads.\<close>

record Time =
  Year :: int
  Month :: int
  Day :: int
  Hour :: int
  Weekday :: int

text \<open>
  The map \<^verbatim>\<open>variables\<close> handed to the evaluator: one field for each key of the map
  literal, \<open>github\<close> being the nested map with the keys \<open>event_name\<close> and \<open>event\<close>.
\<close>

record github_vars =
  event_name :: string
  event :: payload

record variables =
  year :: int
  month :: int
  day :: int
  hour :: int
  weekday :: int
  github :: github_vars
  env :: "string \<rightharpoonup> string"
  is_default_branch :: bool
  is_pull_request :: bool

text \<open>
  What \<^verbatim>\<open>expr.Eval\<close> returns is an \<^verbatim>\<open>interface{}\<close>: a boolean, or a value of
  another dynamic type.
\<close>

datatype dyn = DBool bool | DInt int | DFloat float64 | DString string | DNil | DOther

text \<open>
  The collaborators, as the answers they give. \<open>Eval\<close> is \<^verbatim>\<open>expr.Eval\<close> of
  github.com/antonmedv/expr; the theorems hold whatever it computes, unless they say
  what it computes on a fragment of its language.
\<close>

record world =
  DecodeGitHubEvent :: "error + GitHubEvent"
  gh_Parse :: "string \<Rightarrow> error + gh_Repository"
  gh_New :: "error + Gh"
  GetDefaultBranch :: "Gh \<Rightarrow> string \<Rightarrow> string \<Rightarrow> error + string"
  DetectCurrentBranch :: "Gh \<Rightarrow> error + string"
  DetectCurrentPullRequestNumber :: "Gh \<Rightarrow> string \<Rightarrow> string \<Rightarrow> error + int"
  Now :: Time
  Environ :: "string list"
  Eval :: "string \<Rightarrow> variables \<Rightarrow> error + dyn"

text \<open>The calls CheckIf makes, in the order it makes them, are recorded in a log.\<close>

datatype call =
    Call_DecodeGitHubEvent
  | Call_Parse string
  | Call_New
  | Call_GetDefaultBranch string string
  | Call_DetectCurrentBranch
  | Call_DetectCurrentPullRequestNumber string string
  | Call_Now
  | Call_Environ
  | Call_Eval string

text \<open>
  Of the configuration CheckIf reads the repository identifier and the cached client
  (\<^verbatim>\<open>nil\<close> is \<open>None\<close>), and it may set the client.
\<close>

record Config =
  Repository :: string
  gh :: "Gh option"

text \<open>
  CheckIf returns a pair \<^verbatim>\<open>(bool, error)\<close>, or panics in the type assertion
  \<^verbatim>\<open>ok.(bool)\<close> when the evaluator's result is not a boolean.
\<close>

datatype outcome = Return bool "error option" | Panic

subsection \<open>The function\<close>

text \<open>Lines 293 to 299: the cached client, or a new one that is then cached.\<close>

definition CheckIf_client :: "world \<Rightarrow> Config \<Rightarrow> error + (Gh \<times> Config \<times> call list)" where
  "CheckIf_client w c =
     (case gh c of
        Some g \<Rightarrow> Inr (g, c, [])
      | None \<Rightarrow>
          (case gh_New w of
             Inl err \<Rightarrow> Inl err
           | Inr g \<Rightarrow> Inr (g, c\<lparr>gh := Some g\<rparr>, [Call_New])))"

text \<open>Lines 304 to 309.\<close>

definition isDefaultBranch :: "world \<Rightarrow> Gh \<Rightarrow> string \<Rightarrow> bool" where
  "isDefaultBranch w g defaultBranch =
     (case DetectCurrentBranch w g of
        Inr b \<Rightarrow> if b = defaultBranch then True else False
      | Inl err \<Rightarrow> False)"

text \<open>Lines 311 to 314.\<close>

definition isPullRequest :: "world \<Rightarrow> Gh \<Rightarrow> gh_Repository \<Rightarrow> bool" where
  "isPullRequest w g repo =
     (case DetectCurrentPullRequestNumber w g (Owner repo) (Repo repo) of
        Inr n \<Rightarrow> True
      | Inl err \<Rightarrow> False)"

text \<open>Lines 315 to 329: the map literal.\<close>

definition CheckIf_variables ::
  "world \<Rightarrow> GitHubEvent \<Rightarrow> bool \<Rightarrow> bool \<Rightarrow> variables" where
  "CheckIf_variables w e isDefault isPR =
     \<lparr> year = Year (Now w),
       month = Month (Now w),
       day = Day (Now w),
       hour = Hour (Now w),
       weekday = Weekday (Now w),
       github = \<lparr> event_name = Name e, event = Payload e \<rparr>,
       env = envMap (Environ w),
       is_default_branch = isDefault,
       is_pull_request = isPR \<rparr>"

text \<open>\<^verbatim>\<open>fmt.Sprintf("(%s) == true", cond)\<close>.\<close>

definition formula :: "string \<Rightarrow> string" where
  "formula cond = ''('' @ cond @ '') == true''"

text \<open>Lines 330 to 334: the result of the evaluator, and the type assertion.\<close>

definition CheckIf_result :: "error + dyn \<Rightarrow> outcome" where
  "CheckIf_result r =
     (case r of
        Inl err \<Rightarrow> Return False (Some err)
      | Inr ok \<Rightarrow> (case ok of DBool b \<Rightarrow> Return b None | _ \<Rightarrow> Panic))"

text \<open>
  CheckIf: the outcome, the configuration after the call, and the log of the calls
  made.
\<close>

definition CheckIf :: "world \<Rightarrow> Config \<Rightarrow> string \<Rightarrow> outcome \<times> Config \<times> call list" where
  "CheckIf w c cond =
     (if cond = [] then (Return True None, c, [])
      else
        case DecodeGitHubEvent w of
          Inl err \<Rightarrow> (Return False (Some err), c, [Call_DecodeGitHubEvent])
        | Inr e \<Rightarrow>
            if Repository c = []
            then (Return False (Some (Error ''env GITHUB_REPOSITORY is not set'')), c,
                  [Call_DecodeGitHubEvent])
            else
              case gh_Parse w (Repository c) of
                Inl err \<Rightarrow>
                  (Return False (Some err), c,
                   [Call_DecodeGitHubEvent, Call_Parse (Repository c)])
              | Inr repo \<Rightarrow>
                  (case CheckIf_client w c of
                     Inl err \<Rightarrow>
                       (Return False (Some err), c,
                        [Call_DecodeGitHubEvent, Call_Parse (Repository c), Call_New])
                   | Inr (g, c', new) \<Rightarrow>
                       (case GetDefaultBranch w g (Owner repo) (Repo repo) of
                          Inl err \<Rightarrow>
                            (Return False (Some err), c',
                             [Call_DecodeGitHubEvent, Call_Parse (Repository c)] @ new
                             @ [Call_GetDefaultBranch (Owner repo) (Repo repo)])
                        | Inr defaultBranch \<Rightarrow>
                            (CheckIf_result
                               (Eval w (formula cond)
                                  (CheckIf_variables w e
                                     (isDefaultBranch w g defaultBranch)
                                     (isPullRequest w g repo))),
                             c',
                             [Call_DecodeGitHubEvent, Call_Parse (Repository c)] @ new
                             @ [Call_GetDefaultBranch (Owner repo) (Repo repo),
                                Call_DetectCurrentBranch,
                                Call_DetectCurrentPullRequestNumber (Owner repo) (Repo repo),
                                Call_Now, Call_Environ, Call_Eval (formula cond)]))))"

text \<open>The formulas a log shows to have been handed to the evaluator.\<close>

fun evaluated :: "call list \<Rightarrow> string list" where
  "evaluated [] = []"
| "evaluated (Call_Eval s # cs) = s # evaluated cs"
| "evaluated (c # cs) = evaluated cs"

section \<open>Stand-ins for the library, for concrete instances\<close>

text \<open>
  The theorems below hold for every library. To instantiate them at concrete inputs,
  the following stand-ins are defined on a few simple inputs, where they give the
  library's answer, and reject every other input (which the library need not do).
\<close>

definition is_digit :: "char \<Rightarrow> bool" where
  "is_digit c = (c \<in> set ''0123456789'')"

definition digit_val :: "char \<Rightarrow> nat" where
  "digit_val c = length (takeWhile (\<lambda>d. d \<noteq> c) ''0123456789'')"

definition digits_val :: "string \<Rightarrow> nat" where
  "digits_val s = foldl (\<lambda>n c. 10 * n + digit_val c) 0 s"

text \<open>\<^verbatim>\<open>strconv.ParseFloat\<close> on a string of one to fifteen decimal digits: the number
  itself, which is a float64.\<close>

definition std_ParseFloat :: "string \<Rightarrow> error + float64" where
  "std_ParseFloat s =
     (if s \<noteq> [] \<and> length s \<le> 15 \<and> list_all is_digit s
      then Inr (Finite (of_nat (digits_val s)))
      else Inl (Error ''invalid syntax''))"

text \<open>\<^verbatim>\<open>duration.Parse\<close> on a number of seconds, minutes or hours: \<^verbatim>\<open>90s\<close>,
  \<^verbatim>\<open>10m\<close>, \<^verbatim>\<open>2h\<close>.\<close>

definition std_duration_Parse :: "string \<Rightarrow> error + Duration" where
  "std_duration_Parse s =
     (let ds = takeWhile is_digit s;
          u = dropWhile is_digit s;
          n = int (digits_val ds);
          d = (if u = ''s'' then n * 1000000000
               else if u = ''m'' then n * Minute
               else n * 60 * Minute)
      in if ds \<noteq> [] \<and> u \<in> set [''s'', ''m'', ''h''] \<and> int64_range d
         then Inr d
         else Inl (Error ''invalid duration''))"

text \<open>The method \<^verbatim>\<open>String\<close> of \<^verbatim>\<open>time.Duration\<close>: \<^verbatim>\<open>10m1s\<close>, \<^verbatim>\<open>1h0m0.5s\<close>,
  \<^verbatim>\<open>1.5ms\<close>, \<^verbatim>\<open>0s\<close>.\<close>

definition fmtFrac :: "nat \<Rightarrow> nat \<Rightarrow> string" where
  "fmtFrac v prec =
     (let ds = show_nat (v mod 10 ^ prec);
          padded = replicate (prec - length ds) (CHR ''0'') @ ds;
          kept = rev (dropWhile (\<lambda>c. c = CHR ''0'') (rev padded))
      in if kept = [] then [] else ''.'' @ kept)"

definition std_Duration_String :: "Duration \<Rightarrow> string" where
  "std_Duration_String d =
     (let u = nat \<bar>d\<bar>;
          sign = (if d < 0 then ''-'' else [])
      in if u = 0 then ''0s''
         else if u < 1000 then sign @ show_nat u @ ''ns''
         else if u < 1000000
           then sign @ show_nat (u div 1000) @ fmtFrac u 3 @ [CHR 0xC2, CHR 0xB5] @ ''s''
         else if u < 1000000000
           then sign @ show_nat (u div 1000000) @ fmtFrac u 6 @ ''ms''
         else
           let secs = u div 1000000000;
               mins = secs div 60;
               hours = mins div 60
           in sign @ (if 0 < hours then show_nat hours @ ''h'' else [])
              @ (if 0 < mins then show_nat (mins mod 60) @ ''m'' else [])
              @ show_nat (secs mod 60) @ fmtFrac u 9 @ ''s'')"

definition std_lib :: golib where
  "std_lib =
     \<lparr> ParseFloat = std_ParseFloat,
       duration_Parse = std_duration_Parse,
       Duration_String = std_Duration_String,
       conv_impl = (\<lambda>t. - (2 ^ 63)) \<rparr>"

text \<open>
  An evaluator for the expressions of the examples only: the number \<^verbatim>\<open>1\<close>, the
  variable \<^verbatim>\<open>is_pull_request\<close>, and each of them compared with \<^verbatim>\<open>true\<close>, where
  a number and a boolean compare as unequal; and the conditional
  \<^verbatim>\<open>(true) ? 1 : (false) == true\<close>, in which the comparison belongs to the last branch
  (the conditional operator binds weaker than \<^verbatim>\<open>==\<close>), so that its value is the
  number 1.
\<close>

definition std_Eval :: "string \<Rightarrow> variables \<Rightarrow> error + dyn" where
  "std_Eval s vars =
     (if s = ''1'' then Inr (DInt 1)
      else if s = ''(1) == true'' then Inr (DBool False)
      else if s = ''is_pull_request'' then Inr (DBool (is_pull_request vars))
      else if s = ''(is_pull_request) == true'' then Inr (DBool (is_pull_request vars))
      else if s = ''(true) ? 1 : (false) == true'' then Inr (DInt 1)
      else Inl (Error ''unexpected token''))"

text \<open>
  A run in the repository \<^verbatim>\<open>k1LoW/octocov\<close>, whose default branch is \<^verbatim>\<open>main\<close>;
  \<open>branch\<close> and \<open>pr\<close> are the answers of the two detections.
\<close>

definition std_world :: "error + string \<Rightarrow> error + int \<Rightarrow> world" where
  "std_world branch pr =
     \<lparr> DecodeGitHubEvent = Inr \<lparr> Name = ''push'', Payload = EventPayload ''{}'' \<rparr>,
       gh_Parse = (\<lambda>s. if s = ''k1LoW/octocov''
                        then Inr \<lparr> Owner = ''k1LoW'', Repo = ''octocov'' \<rparr>
                        else Inl (Error ''invalid repository'')),
       gh_New = Inr (GhClient 0),
       GetDefaultBranch = (\<lambda>g owner repo. Inr ''main''),
       DetectCurrentBranch = (\<lambda>g. branch),
       DetectCurrentPullRequestNumber = (\<lambda>g owner repo. pr),
       Now = \<lparr> Year = 2021, Month = 10, Day = 4, Hour = 9, Weekday = 1 \<rparr>,
       Environ = [''HOME=/root'', ''OPTS=a=b'', ''GITHUB_REPOSITORY=k1LoW/octocov''],
       Eval = std_Eval \<rparr>"

definition std_config :: Config where
  "std_config = \<lparr> Repository = ''k1LoW/octocov'', gh = None \<rparr>"

section \<open>The evaluator on a fragment of its language\<close>

text \<open>
  Modelled from the spec: the evaluator of gate expressions, \<^verbatim>\<open>expr.Eval\<close> of
  github.com/antonmedv/expr, whose code is not among the sources. The spec names the
  variables of an expression and their types, and says that the formula compares the
  expression's own value with the boolean \<^verbatim>\<open>true\<close> and that a type mismatch is an
  error; the grammar is the library's. What follows gives the lexer, the parser and
  the evaluation on a fragment of the language: integer literals, \<^verbatim>\<open>true\<close> and
  \<^verbatim>\<open>false\<close>, the variables \<^verbatim>\<open>year\<close>, \<^verbatim>\<open>day\<close>, \<^verbatim>\<open>hour\<close>, \<^verbatim>\<open>weekday\<close>,
  \<^verbatim>\<open>is_default_branch\<close> and \<^verbatim>\<open>is_pull_request\<close>, parentheses, the operators \<^verbatim>\<open>==\<close>,
  \<^verbatim>\<open>!=\<close> and \<^verbatim>\<open>!\<close>, and the conditional \<^verbatim>\<open>c ? a : b\<close>. On every other input it
  gives no answer (\<open>None\<close>): nothing is said about the rest of the language.
\<close>

subsection \<open>Tokens\<close>

datatype token =
    TNum int
  | TBool bool
  | TVar string
  | TLParen
  | TRParen
  | TEq
  | TNeq
  | TNot
  | TQuestion
  | TColon

text \<open>What the lexer has read of a token that the next character may continue.\<close>

datatype pending = PNone | PNum string | PIdent string | PEq | PBang | PQuest

definition is_letter :: "char \<Rightarrow> bool" where
  "is_letter c = (c \<in> set ''abcdefghijklmnopqrstuvwxyzABCDEFGHIJKLMNOPQRSTUVWXYZ_'')"

text \<open>
  An identifier: the two boolean constants, and the variables of the fragment (the
  integers and booleans among the keys of the map CheckIf builds).
\<close>

definition ident_token :: "string \<Rightarrow> token option" where
  "ident_token s =
     (if s = ''true'' then Some (TBool True)
      else if s = ''false'' then Some (TBool False)
      else if s \<in> set [''year'', ''day'', ''hour'', ''weekday'',
                        ''is_default_branch'', ''is_pull_request'']
      then Some (TVar s)
      else None)"

text \<open>
  The token that ends where the input, or a character that cannot continue it, is met.
  An integer literal of at most eighteen digits fits the type \<^verbatim>\<open>int\<close>; a single \<^verbatim>\<open>=\<close>
  is no operator of the fragment.
\<close>

definition flush :: "pending \<Rightarrow> token list option" where
  "flush p =
     (case p of
        PNone \<Rightarrow> Some []
      | PNum ds \<Rightarrow> if length ds \<le> 18 then Some [TNum (int (digits_val ds))] else None
      | PIdent cs \<Rightarrow> (case ident_token cs of Some t \<Rightarrow> Some [t] | None \<Rightarrow> None)
      | PEq \<Rightarrow> None
      | PBang \<Rightarrow> Some [TNot]
      | PQuest \<Rightarrow> Some [TQuestion])"

text \<open>A character met when no token is under way.\<close>

definition fresh :: "char \<Rightarrow> (token list \<times> pending) option" where
  "fresh c =
     (if c = CHR '' '' then Some ([], PNone)
      else if c = CHR ''('' then Some ([TLParen], PNone)
      else if c = CHR '')'' then Some ([TRParen], PNone)
      else if c = CHR '':'' then Some ([TColon], PNone)
      else if c = CHR ''?'' then Some ([], PQuest)
      else if c = CHR ''='' then Some ([], PEq)
      else if c = CHR ''!'' then Some ([], PBang)
      else if is_digit c then Some ([], PNum [c])
      else if is_letter c then Some ([], PIdent [c])
      else None)"

definition flush_fresh :: "pending \<Rightarrow> char \<Rightarrow> (token list \<times> pending) option" where
  "flush_fresh p c =
     (case flush p of
        None \<Rightarrow> None
      | Some ts \<Rightarrow> (case fresh c of None \<Rightarrow> None | Some (ts', p') \<Rightarrow> Some (ts @ ts', p')))"

text \<open>
  One character: the tokens it completes and what is under way after it. Digits go on
  with a number (one that starts with \<^verbatim>\<open>0\<close> has a base prefix or is octal in some
  versions: outside the fragment), and a letter after a number is an error or an
  exponent; \<^verbatim>\<open>==\<close> and \<^verbatim>\<open>!=\<close> are one token each; \<^verbatim>\<open>??\<close> is an operator of later
  versions.
\<close>

definition lex_step :: "pending \<Rightarrow> char \<Rightarrow> (token list \<times> pending) option" where
  "lex_step p c =
     (case p of
        PNone \<Rightarrow> fresh c
      | PNum ds \<Rightarrow>
          if is_digit c then (if ds = ''0'' then None else Some ([], PNum (ds @ [c])))
          else if is_letter c then None
          else flush_fresh p c
      | PIdent cs \<Rightarrow>
          if is_letter c \<or> is_digit c then Some ([], PIdent (cs @ [c]))
          else flush_fresh p c
      | PEq \<Rightarrow> if c = CHR ''='' then Some ([TEq], PNone) else None
      | PBang \<Rightarrow> if c = CHR ''='' then Some ([TNeq], PNone) else flush_fresh p c
      | PQuest \<Rightarrow> if c = CHR ''?'' then None else flush_fresh p c)"

fun lex_from :: "pending \<Rightarrow> string \<Rightarrow> token list option" where
  "lex_from p [] = flush p"
| "lex_from p (c # cs) =
     (case lex_step p c of
        None \<Rightarrow> None
      | Some (ts, p') \<Rightarrow>
          (case lex_from p' cs of None \<Rightarrow> None | Some ts' \<Rightarrow> Some (ts @ ts')))"

definition lexer_Lex :: "string \<Rightarrow> token list option" where
  "lexer_Lex s = lex_from PNone s"

subsection \<open>Syntax trees and the parser\<close>

datatype binop = OpEqual | OpNotEqual

datatype node =
    IntegerNode int
  | BoolNode bool
  | IdentifierNode string
  | UnaryNode node
  | BinaryNode binop node node
  | ConditionalNode node node node

text \<open>The binary operators of the fragment, both of precedence 20 and left-associative.\<close>

definition binary_operator :: "token \<Rightarrow> (binop \<times> nat) option" where
  "binary_operator t =
     (case t of TEq \<Rightarrow> Some (OpEqual, 20) | TNeq \<Rightarrow> Some (OpNotEqual, 20) | _ \<Rightarrow> None)"

text \<open>
  The parser, by recursive descent with precedence climbing: \<open>parseExpression\<close> reads a
  primary expression, then binary operators of at least the given precedence, and at
  precedence 0 a conditional; \<open>parsePrimary\<close> reads a negation (whose operand is read at
  precedence 50), a parenthesised expression, a literal or a variable (a variable
  followed by a parenthesis is a call: outside the fragment). The first argument bounds
  the depth of the recursion. Each function returns the tree and the tokens left.
\<close>

fun parsePrimary :: "nat \<Rightarrow> token list \<Rightarrow> (node \<times> token list) option"
  and parseExpression :: "nat \<Rightarrow> nat \<Rightarrow> token list \<Rightarrow> (node \<times> token list) option"
  and parseExpression_loop ::
    "nat \<Rightarrow> nat \<Rightarrow> node \<Rightarrow> token list \<Rightarrow> (node \<times> token list) option"
  and parseConditionalExpression ::
    "nat \<Rightarrow> node \<Rightarrow> token list \<Rightarrow> (node \<times> token list) option"
where
  "parsePrimary 0 ts = None"
| "parsePrimary (Suc n) ts =
     (case ts of
        [] \<Rightarrow> None
      | t # r \<Rightarrow>
          (case t of
             TNot \<Rightarrow>
               (case parseExpression n 50 r of
                  None \<Rightarrow> None
                | Some (e, r') \<Rightarrow> Some (UnaryNode e, r'))
           | TLParen \<Rightarrow>
               (case parseExpression n 0 r of
                  None \<Rightarrow> None
                | Some (e, r') \<Rightarrow>
                    (case r' of TRParen # r'' \<Rightarrow> Some (e, r'') | _ \<Rightarrow> None))
           | TNum k \<Rightarrow> Some (IntegerNode k, r)
           | TBool b \<Rightarrow> Some (BoolNode b, r)
           | TVar x \<Rightarrow>
               (case r of TLParen # r' \<Rightarrow> None | _ \<Rightarrow> Some (IdentifierNode x, r))
           | _ \<Rightarrow> None))"
| "parseExpression 0 prec ts = None"
| "parseExpression (Suc n) prec ts =
     (case parsePrimary n ts of
        None \<Rightarrow> None
      | Some (left, r) \<Rightarrow>
          (case parseExpression_loop n prec left r of
             None \<Rightarrow> None
           | Some (e, r') \<Rightarrow>
               if prec = 0 then parseConditionalExpression n e r' else Some (e, r')))"
| "parseExpression_loop 0 prec left ts = None"
| "parseExpression_loop (Suc n) prec left ts =
     (case ts of
        [] \<Rightarrow> Some (left, ts)
      | t # r \<Rightarrow>
          (case binary_operator t of
             None \<Rightarrow> Some (left, ts)
           | Some (op, p) \<Rightarrow>
               if prec \<le> p
               then (case parseExpression n (p + 1) r of
                       None \<Rightarrow> None
                     | Some (right, r') \<Rightarrow>
                         parseExpression_loop n prec (BinaryNode op left right) r')
               else Some (left, ts)))"
| "parseConditionalExpression 0 e ts = None"
| "parseConditionalExpression (Suc n) e ts =
     (case ts of
        TQuestion # r \<Rightarrow>
          (case r of
             TColon # r' \<Rightarrow> None
           | _ \<Rightarrow>
               (case parseExpression n 0 r of
                  None \<Rightarrow> None
                | Some (e1, r1) \<Rightarrow>
                    (case r1 of
                       TColon # r2 \<Rightarrow>
                         (case parseExpression n 0 r2 of
                            None \<Rightarrow> None
                          | Some (e2, r3) \<Rightarrow>
                              parseConditionalExpression n (ConditionalNode e e1 e2) r3)
                     | _ \<Rightarrow> None)))
      | _ \<Rightarrow> Some (e, ts))"

text \<open>\<^verbatim>\<open>parser.Parse\<close>: one expression, and nothing after it.\<close>

definition parser_Parse :: "token list \<Rightarrow> node option" where
  "parser_Parse ts =
     (case parseExpression (2 * length ts + 2) 0 ts of
        Some (e, []) \<Rightarrow> Some e
      | _ \<Rightarrow> None)"

definition expr_parse :: "string \<Rightarrow> node option" where
  "expr_parse s = (case lexer_Lex s of None \<Rightarrow> None | Some ts \<Rightarrow> parser_Parse ts)"

subsection \<open>Evaluation\<close>

text \<open>The result of an evaluation: a value, or an error.\<close>

datatype res = Val dyn | Err

definition variable_value :: "variables \<Rightarrow> string \<Rightarrow> dyn" where
  "variable_value vars x =
     (if x = ''year'' then DInt (year vars)
      else if x = ''day'' then DInt (day vars)
      else if x = ''hour'' then DInt (hour vars)
      else if x = ''weekday'' then DInt (weekday vars)
      else if x = ''is_default_branch'' then DBool (is_default_branch vars)
      else DBool (is_pull_request vars))"

text \<open>
  The virtual machine. \<^verbatim>\<open>==\<close> compares two values of any types, and values of
  different types are unequal; \<^verbatim>\<open>!\<close> and the condition of a conditional assert that
  their operand is a boolean, and the failed assertion is an error.
\<close>

fun vm_Run :: "variables \<Rightarrow> node \<Rightarrow> res" where
  "vm_Run vars (IntegerNode k) = Val (DInt k)"
| "vm_Run vars (BoolNode b) = Val (DBool b)"
| "vm_Run vars (IdentifierNode x) = Val (variable_value vars x)"
| "vm_Run vars (UnaryNode e) =
     (case vm_Run vars e of
        Val (DBool b) \<Rightarrow> Val (DBool (\<not> b))
      | _ \<Rightarrow> Err)"
| "vm_Run vars (BinaryNode op l r) =
     (case vm_Run vars l of
        Err \<Rightarrow> Err
      | Val a \<Rightarrow>
          (case vm_Run vars r of
             Err \<Rightarrow> Err
           | Val b \<Rightarrow> Val (DBool (if op = OpEqual then a = b else a \<noteq> b))))"
| "vm_Run vars (ConditionalNode c a b) =
     (case vm_Run vars c of
        Val (DBool t) \<Rightarrow> if t then vm_Run vars a else vm_Run vars b
      | _ \<Rightarrow> Err)"

text \<open>\<^verbatim>\<open>expr.Eval\<close> without a type checker, on the fragment; \<open>None\<close> outside it.\<close>

definition expr_Eval :: "string \<Rightarrow> variables \<Rightarrow> res option" where
  "expr_Eval s vars =
     (case expr_parse s of None \<Rightarrow> None | Some e \<Rightarrow> Some (vm_Run vars e))"



subsection \<open>Stand-ins for the evaluator\<close>





section \<open>Facts about the modelled values\<close>

lemma colours_distinct:
  "distinct [green, yellowgreen, yellow, orange, red]"
  by (simp add: green_def yellowgreen_def yellow_def orange_def red_def)


lemma f64_ge_Finite [simp]:
  "f64_ge (Finite a) (Finite b) = (b \<le> a)"
  by (auto simp: f64_ge_def f64_le_def is_NaN_def)

lemma f64_lt_Finite [simp]:
  "f64_lt (Finite a) (Finite b) = (a < b)"
  by simp

lemma f64_ge_iff_not_lt:
  "\<not> is_NaN x \<Longrightarrow> \<not> is_NaN y \<Longrightarrow> f64_ge x y = (\<not> f64_lt x y)"
  by (simp add: f64_ge_def f64_le_def)

lemma f64_ge_NaN [simp]:
  "f64_ge NaN y = False" "f64_ge x NaN = False"
  by (simp_all add: f64_ge_def f64_le_def is_NaN_def)

lemma CoverageColor_tiers:
  "(CoverageColor v = green) = f64_ge v lit_80"
  "(CoverageColor v = yellowgreen) = (f64_ge v lit_60 \<and> f64_lt v lit_80)"
  "(CoverageColor v = yellow) = (f64_ge v lit_40 \<and> f64_lt v lit_60)"
  "(CoverageColor v = orange) = (f64_ge v lit_20 \<and> f64_lt v lit_40)"
  "(CoverageColor v = red) = (\<not> f64_ge v lit_20)"
  using colours_distinct
  by (cases v; auto simp: CoverageColor_def lit_80_def lit_60_def lit_40_def lit_20_def
        f64_ge_def f64_le_def is_NaN_def)+

lemma CoverageColor_partition:
  "exactly_one [f64_ge v lit_80, f64_ge v lit_60 \<and> f64_lt v lit_80,
     f64_ge v lit_40 \<and> f64_lt v lit_60, f64_ge v lit_20 \<and> f64_lt v lit_40,
     \<not> f64_ge v lit_20]"
  by (cases v; auto simp: exactly_one_def lit_80_def lit_60_def lit_40_def lit_20_def
        f64_ge_def f64_le_def is_NaN_def)

lemma CodeToTestRatioColor_tiers:
  "(CodeToTestRatioColor v = green) = f64_ge v lit_1_2"
  "(CodeToTestRatioColor v = yellowgreen) = (f64_ge v lit_1_0 \<and> f64_lt v lit_1_2)"
  "(CodeToTestRatioColor v = yellow) = (f64_ge v lit_0_8 \<and> f64_lt v lit_1_0)"
  "(CodeToTestRatioColor v = orange) = (f64_ge v lit_0_6 \<and> f64_lt v lit_0_8)"
  "(CodeToTestRatioColor v = red) = (\<not> f64_ge v lit_0_6)"
  using colours_distinct
  by (cases v; auto simp: CodeToTestRatioColor_def lit_1_2_def lit_1_0_def lit_0_8_def
        lit_0_6_def f64_ge_def f64_le_def is_NaN_def)+

lemma CodeToTestRatioColor_partition:
  "exactly_one [f64_ge v lit_1_2, f64_ge v lit_1_0 \<and> f64_lt v lit_1_2,
     f64_ge v lit_0_8 \<and> f64_lt v lit_1_0, f64_ge v lit_0_6 \<and> f64_lt v lit_0_8,
     \<not> f64_ge v lit_0_6]"
  by (cases v; auto simp: exactly_one_def lit_1_2_def lit_1_0_def lit_0_8_def
        lit_0_6_def f64_ge_def f64_le_def is_NaN_def)

lemma TestExecutionTimeColor_tiers:
  "(TestExecutionTimeColor d = green) = (d < 5 * Minute)"
  "(TestExecutionTimeColor d = yellowgreen) = (5 * Minute \<le> d \<and> d < 10 * Minute)"
  "(TestExecutionTimeColor d = yellow) = (10 * Minute \<le> d \<and> d < 15 * Minute)"
  "(TestExecutionTimeColor d = orange) = (15 * Minute \<le> d \<and> d < 20 * Minute)"
  "(TestExecutionTimeColor d = red) = (\<not> d < 20 * Minute)"
  using colours_distinct
  by (auto simp: TestExecutionTimeColor_def Minute_def)

lemma TestExecutionTimeColor_partition:
  "exactly_one [d < 5 * Minute, 5 * Minute \<le> d \<and> d < 10 * Minute,
     10 * Minute \<le> d \<and> d < 15 * Minute, 15 * Minute \<le> d \<and> d < 20 * Minute,
     \<not> d < 20 * Minute]"
  by (auto simp: exactly_one_def Minute_def)

text \<open>The constants 1.2, 0.8, 0.6 and 79.9 are the nearest float64 values.\<close>

lemma literals_nearest:
  "nearest_float64 (12 / 10) 5404319552844595 52"
  "nearest_float64 (8 / 10) 7205759403792794 53"
  "nearest_float64 (6 / 10) 5404319552844595 53"
  "nearest_float64 (799 / 10) 5622462659795354 46"
  by (simp_all add: nearest_float64_def)

subsection \<open>Evaluation rules\<close>

lemma blen_0: "blen 0 = 0"
  by (simp add: blen.simps)

lemma blen_pos: "n \<noteq> 0 \<Longrightarrow> blen n = Suc (blen (n div 2))"
  by (subst blen.simps) simp

lemma show_nat_small: "n < 10 \<Longrightarrow> show_nat n = [digit_char n]"
  by (subst show_nat.simps) simp

lemma show_nat_large:
  "\<not> n < 10 \<Longrightarrow> show_nat n = show_nat (n div 10) @ [digit_char (n mod 10)]"
  by (subst show_nat.simps) simp

lemma round_half_even_unique:
  assumes "of_int n - 1 / 2 < m" "m < of_int n + 1 / 2"
  shows "round_half_even m = n"
proof (cases "m < of_int n")
  case True
  have "of_int (n - 1) \<le> m" using assms(1) by simp
  then have "n - 1 \<le> \<lfloor>m\<rfloor>" by (simp only: le_floor_iff)
  moreover have "\<lfloor>m\<rfloor> < n" using True by (simp add: floor_less_iff)
  ultimately have f: "\<lfloor>m\<rfloor> = n - 1" by linarith
  show ?thesis using assms by (simp add: round_half_even_def Let_def f)
next
  case False
  have "\<lfloor>m\<rfloor> = n" using False assms(2) by (intro floor_unique) auto
  then show ?thesis using assms False by (simp add: round_half_even_def Let_def)
qed

lemma fmt_f1_Finite:
  assumes "0 \<le> q" "of_int n - 1 / 2 < q * 10" "q * 10 < of_int n + 1 / 2"
  shows "fmt_f1 (Finite q) = show_nat (nat n div 10) @ ''.'' @ [digit_char (nat n mod 10)]"
proof -
  have "round_half_even (\<bar>q\<bar> * 10) = n"
    using assms by (intro round_half_even_unique) simp_all
  then show ?thesis using assms(1) by (simp add: fmt_f1_def Let_def)
qed

lemma fmt_f1_79_9: "fmt_f1 lit_79_9 = ''79.9''"
  unfolding lit_79_9_def
  by (subst fmt_f1_Finite [where n = 799])
     (simp_all add: show_nat_small show_nat_large digit_char_def)

lemma fmt_f1_80: "fmt_f1 lit_80 = ''80.0''"
  unfolding lit_80_def
  by (subst fmt_f1_Finite [where n = 800])
     (simp_all add: show_nat_small show_nat_large digit_char_def)

subsection \<open>The conversion of an int64 to float64\<close>

lemma blen_le: "n < 2 ^ k \<Longrightarrow> blen n \<le> k"
proof (induction k arbitrary: n)
  case 0
  then show ?case by (simp add: blen_0)
next
  case (Suc k)
  then have "n div 2 < 2 ^ k" by auto
  then have "blen (n div 2) \<le> k" by (rule Suc.IH)
  then show ?case by (cases "n = 0") (simp_all add: blen_0 blen_pos)
qed

lemma blen_pow2: "blen (2 ^ k) = Suc k"
  by (induction k) (simp_all add: blen_0 blen_pos)

text \<open>An int64 of magnitude at most \<open>2 ^ 53\<close> is a float64: the conversion is exact.\<close>

lemma float64_of_int64_exact:
  assumes "\<bar>n\<bar> \<le> 2 ^ 53"
  shows "float64_of_int64 n = Finite (of_int n)"
proof (cases "\<bar>n\<bar> = 2 ^ 53")
  case True
  then have a: "nat \<bar>n\<bar> = 2 ^ 53" by simp
  have "blen (2 ^ 53) = Suc 53" by (rule blen_pow2)
  then have "blen (nat \<bar>n\<bar>) - 53 = 1" using a by simp
  then show ?thesis using True a
    by (auto simp: float64_of_int64_def Let_def)
next
  case False
  with assms have "nat \<bar>n\<bar> < 2 ^ 53" by simp
  then have "blen (nat \<bar>n\<bar>) \<le> 53" by (rule blen_le)
  then show ?thesis
    by (auto simp: float64_of_int64_def Let_def)
qed

subsection \<open>Strings\<close>

lemma TrimSuffix_append: "TrimSuffix (s @ x) x = s"
  by (simp add: TrimSuffix_def HasSuffix_def)

lemma TrimPrefix_append: "TrimPrefix (p @ s) p = s"
  by (simp add: TrimPrefix_def HasPrefix_def)

lemma HasPrefix_self_append: "HasPrefix (b @ c) b"
  by (simp add: HasPrefix_def)

lemma Contains_prefix: "HasPrefix s sub \<Longrightarrow> Contains s sub"
  by (cases s) (simp_all add: HasPrefix_def)

lemma Contains_append: "Contains (a @ b @ c) b"
  by (induction a) (simp_all add: Contains_prefix HasPrefix_self_append)


subsection \<open>When a check passes\<close>

lemma coverageAcceptable_passes_iff:
  assumes "cond \<noteq> []" "ParseFloat L (TrimSuffix cond ''%'') = Inr a"
  shows "(coverageAcceptable L v cond = None) = (\<not> f64_lt v a)"
  using assms by (simp add: coverageAcceptable_def)

lemma codeToTestRatioAcceptable_passes_iff:
  assumes "cond \<noteq> []" "ParseFloat L (TrimPrefix cond ''1:'') = Inr a"
  shows "(codeToTestRatioAcceptable L v cond = None) = (\<not> f64_lt v a)"
  using assms by (simp add: codeToTestRatioAcceptable_def)

lemma testExecutionTimeAcceptable_passes_iff:
  assumes "cond \<noteq> []" "duration_Parse L cond = Inr d"
  shows "(testExecutionTimeAcceptable L t cond = None) = (\<not> f64_gt t (float64_of_int64 d))"
  using assms by (simp add: testExecutionTimeAcceptable_def)

lemma f64_le_iff_not_gt:
  "\<not> is_NaN x \<Longrightarrow> \<not> is_NaN y \<Longrightarrow> f64_le x y = (\<not> f64_gt x y)"
  by (simp add: f64_le_def f64_gt_def)

lemma is_NaN_Finite [simp]: "\<not> is_NaN (Finite q)"
  by (simp add: is_NaN_def)

subsection \<open>The stand-ins at the inputs of the examples\<close>

lemma std_ParseFloat_80: "std_ParseFloat ''80'' = Inr lit_80"
  by (simp add: std_ParseFloat_def is_digit_def digits_val_def digit_val_def lit_80_def)

lemma std_duration_Parse_10m: "std_duration_Parse ''10m'' = Inr (10 * Minute)"
  by (simp add: std_duration_Parse_def is_digit_def digits_val_def digit_val_def Minute_def
        int64_range_def Let_def)

lemma std_Duration_String_ex:
  "std_Duration_String 601000000000 = ''10m1s''"
  "std_Duration_String 600000000000 = ''10m0s''"
  by (simp_all add: std_Duration_String_def fmtFrac_def Let_def show_nat_small show_nat_large
        digit_char_def)

lemma blen_big: "blen 4611686019000000000 = 63"
  by (simp add: blen_0 blen_pos)

lemma float64_of_int64_big: "float64_of_int64 4611686019000000000 = Finite 4611686019000000512"
  by (simp add: float64_of_int64_def Let_def blen_big)

lemma std_duration_Parse_big: "std_duration_Parse ''4611686019s'' = Inr 4611686019000000000"
  by (simp add: std_duration_Parse_def is_digit_def digits_val_def digit_val_def Minute_def
        int64_range_def Let_def)

lemma std_lib_simps:
  "ParseFloat std_lib = std_ParseFloat"
  "duration_Parse std_lib = std_duration_Parse"
  "Duration_String std_lib = std_Duration_String"
  "conv_impl std_lib = (\<lambda>t. - (2 ^ 63))"
  by (simp_all add: std_lib_def)

lemma fmt_f1_half: "fmt_f1 (Finite (1 / 2)) = ''0.5''"
  by (subst fmt_f1_Finite [where n = 5])
     (simp_all add: show_nat_small show_nat_large digit_char_def)

lemma fmt_f1_one: "fmt_f1 (Finite 1) = ''1.0''"
  by (subst fmt_f1_Finite [where n = 10])
     (simp_all add: show_nat_small show_nat_large digit_char_def)

subsection \<open>The environment map\<close>

lemma Contains_eq: "Contains s ''='' = (CHR ''='' \<in> set s)"
  by (induction s) (auto simp: HasPrefix_def)

lemma envMap_loop_Cons:
  "envMap_loop (kv # rest) m =
     envMap_loop rest
       (if CHR ''='' \<in> set kv
        then m(takeWhile (\<lambda>c. c \<noteq> CHR ''='') kv \<mapsto> tl (dropWhile (\<lambda>c. c \<noteq> CHR ''='') kv))
        else m)"
  by (simp add: Contains_eq SplitN_eq_2_def Let_def)

lemma envMap_loop_append:
  "envMap_loop (xs @ ys) m = envMap_loop ys (envMap_loop xs m)"
  by (induction xs arbitrary: m) (simp_all only: envMap_loop_Cons envMap_loop.simps(1) append.simps)

lemma envMap_loop_other:
  "\<forall>e \<in> set ys. CHR ''='' \<in> set e \<longrightarrow> takeWhile (\<lambda>c. c \<noteq> CHR ''='') e \<noteq> K
   \<Longrightarrow> envMap_loop ys m K = m K"
proof (induction ys arbitrary: m)
  case Nil
  then show ?case by simp
next
  case (Cons e ys)
  let ?m = "if CHR ''='' \<in> set e
        then m(takeWhile (\<lambda>c. c \<noteq> CHR ''='') e \<mapsto> tl (dropWhile (\<lambda>c. c \<noteq> CHR ''='') e))
        else m"
  have "envMap_loop (e # ys) m K = envMap_loop ys ?m K"
    by (simp only: envMap_loop_Cons)
  also have "\<dots> = ?m K"
    using Cons.prems by (intro Cons.IH) simp
  also have "\<dots> = m K"
    using Cons.prems by auto
  finally show ?case .
qed

lemma HasPrefix_iff: "HasPrefix s p = (\<exists>r. s = p @ r)"
proof
  assume "HasPrefix s p"
  then have "s = p @ drop (length p) s"
    by (metis HasPrefix_def append_take_drop_id)
  then show "\<exists>r. s = p @ r" ..
next
  assume "\<exists>r. s = p @ r"
  then show "HasPrefix s p" by (auto simp: HasPrefix_def)
qed

lemma name_of_entry:
  assumes "CHR ''='' \<notin> set K"
  shows "takeWhile (\<lambda>c. c \<noteq> CHR ''='') (K @ CHR ''='' # V) = K"
    and "tl (dropWhile (\<lambda>c. c \<noteq> CHR ''='') (K @ CHR ''='' # V)) = V"
proof -
  have k: "\<And>x. x \<in> set K \<Longrightarrow> x \<noteq> CHR ''=''" using assms by auto
  show "takeWhile (\<lambda>c. c \<noteq> CHR ''='') (K @ CHR ''='' # V) = K"
    using k by simp
  show "tl (dropWhile (\<lambda>c. c \<noteq> CHR ''='') (K @ CHR ''='' # V)) = V"
    using k by simp
qed

lemma name_is_prefix:
  assumes "CHR ''='' \<in> set e" "takeWhile (\<lambda>c. c \<noteq> CHR ''='') e = K"
  shows "HasPrefix e (K @ ''='')"
proof -
  let ?P = "\<lambda>c. c \<noteq> CHR ''=''"
  have "dropWhile ?P e \<noteq> []" using assms(1) by (simp add: dropWhile_eq_Nil_conv)
  moreover have "\<not> ?P (hd (dropWhile ?P e))"
    using calculation by (rule hd_dropWhile)
  ultimately obtain r where "dropWhile ?P e = CHR ''='' # r"
    by (cases "dropWhile ?P e") auto
  then have "e = K @ ''='' @ r"
    using assms(2) takeWhile_dropWhile_id [of ?P e] by simp
  then show ?thesis by (auto simp: HasPrefix_iff)
qed

lemma dom_envMap_loop:
  "dom (envMap_loop xs m)
     = dom m \<union> takeWhile (\<lambda>c. c \<noteq> CHR ''='') ` {e \<in> set xs. CHR ''='' \<in> set e}"
proof (induction xs arbitrary: m)
  case Nil
  then show ?case by simp
next
  case (Cons e xs)
  show ?case by (simp only: envMap_loop_Cons Cons.IH) auto
qed

text \<open>
  An entry \<open>K=V\<close> that no later entry overrides: the map sends \<open>K\<close> to \<open>V\<close>.
\<close>

lemma envMap_last_entry:
  assumes "environ = before @ [K @ ''='' @ V] @ after"
    and "CHR ''='' \<notin> set K"
    and "\<forall>e \<in> set after. \<not> HasPrefix e (K @ ''='')"
  shows "envMap environ K = Some V"
proof -
  have later: "\<forall>e \<in> set after. CHR ''='' \<in> set e \<longrightarrow> takeWhile (\<lambda>c. c \<noteq> CHR ''='') e \<noteq> K"
    using assms(3) name_is_prefix by blast
  have "envMap environ K
      = envMap_loop after (envMap_loop [K @ ''='' @ V] (envMap_loop before Map.empty)) K"
    by (simp only: envMap_def assms(1) envMap_loop_append)
  also have "\<dots> = envMap_loop [K @ ''='' @ V] (envMap_loop before Map.empty) K"
    using later by (rule envMap_loop_other)
  also have "\<dots> = Some V"
    by (simp only: envMap_loop_Cons envMap_loop.simps(1)) (simp add: name_of_entry [OF assms(2)])
  finally show ?thesis .
qed

subsection \<open>CheckIf\<close>

lemma CheckIf_evaluates:
  assumes "cond \<noteq> []"
    and "DecodeGitHubEvent w = Inr e"
    and "Repository c \<noteq> []"
    and "gh_Parse w (Repository c) = Inr repo"
    and "CheckIf_client w c = Inr (g, c', new)"
    and "GetDefaultBranch w g (Owner repo) (Repo repo) = Inr defaultBranch"
  shows "CheckIf w c cond =
     (CheckIf_result
        (Eval w (formula cond)
           (CheckIf_variables w e (isDefaultBranch w g defaultBranch) (isPullRequest w g repo))),
      c',
      [Call_DecodeGitHubEvent, Call_Parse (Repository c)] @ new
      @ [Call_GetDefaultBranch (Owner repo) (Repo repo),
         Call_DetectCurrentBranch,
         Call_DetectCurrentPullRequestNumber (Owner repo) (Repo repo),
         Call_Now, Call_Environ, Call_Eval (formula cond)])"
  using assms by (simp add: CheckIf_def)

lemma CheckIf_client_log:
  "CheckIf_client w c = Inr (g, c', new) \<Longrightarrow> evaluated new = []"
  by (auto simp: CheckIf_client_def split: option.splits sum.splits)

lemma evaluated_append: "evaluated (xs @ ys) = evaluated xs @ evaluated ys"
  by (induction xs rule: evaluated.induct) simp_all

lemma CheckIf_result_True:
  "(CheckIf_result r = Return True None) = (r = Inr (DBool True))"
  by (auto simp: CheckIf_result_def split: sum.splits dyn.splits)

lemma CheckIf_result_Panic:
  "(CheckIf_result r = Panic) = (\<exists>v. r = Inr v \<and> (\<forall>b. v \<noteq> DBool b))"
  by (auto simp: CheckIf_result_def split: sum.splits dyn.splits)

subsection \<open>The evaluator on the fragment\<close>

declare parsePrimary.simps [simp del] parseExpression.simps [simp del]
  parseExpression_loop.simps [simp del] parseConditionalExpression.simps [simp del]

declare parsePrimary.simps(1) [simp] parseExpression.simps(1) [simp]
  parseExpression_loop.simps(1) [simp] parseConditionalExpression.simps(1) [simp]




























text \<open>
  A conditional binds weaker than \<^verbatim>\<open>==\<close>: in \<^verbatim>\<open>(true) ? 1 : (false) == true\<close> the
  comparison belongs to the last branch, and the value is the number 1. The text
  \<^verbatim>\<open>true) ? 1 : (false\<close> between the parentheses is no expression by itself.
\<close>

lemma lexer_Lex_conditional:
  "lexer_Lex ''(true) ? 1 : (false) == true''
     = Some [TLParen, TBool True, TRParen, TQuestion, TNum 1, TColon,
             TLParen, TBool False, TRParen, TEq, TBool True]"
  by (simp add: lexer_Lex_def lex_step_def flush_fresh_def fresh_def flush_def is_digit_def
      is_letter_def ident_token_def digits_val_def digit_val_def)

lemma expr_parse_conditional:
  "expr_parse ''(true) ? 1 : (false) == true''
     = Some (ConditionalNode (BoolNode True) (IntegerNode 1)
               (BinaryNode OpEqual (BoolNode False) (BoolNode True)))"
  by (simp add: expr_parse_def lexer_Lex_conditional parser_Parse_def
      parseExpression.simps(2) parsePrimary.simps(2) parseExpression_loop.simps(2)
      parseConditionalExpression.simps(2) binary_operator_def eval_nat_numeral)

lemma expr_Eval_conditional:
  "expr_Eval ''(true) ? 1 : (false) == true'' vars = Some (Val (DInt 1))"
  by (simp add: expr_Eval_def expr_parse_conditional)

lemma expr_parse_not_alone: "expr_parse ''true) ? 1 : (false'' = None"
  by (simp add: expr_parse_def lexer_Lex_def lex_step_def flush_fresh_def fresh_def flush_def
      is_digit_def is_letter_def ident_token_def digits_val_def digit_val_def parser_Parse_def
      parseExpression.simps(2) parsePrimary.simps(2) parseExpression_loop.simps(2)
      parseConditionalExpression.simps(2) binary_operator_def eval_nat_numeral)

section \<open>The claims\<close>

text \<open>
  C1, as amended. The direction of each check, in Go's float64 comparisons. When the
  threshold is not empty and parses to \<open>a\<close>, coverageAcceptable and
  codeToTestRatioAcceptable pass iff \<open>v < a\<close> is false, which is \<open>v >= a\<close>
  whenever neither \<open>v\<close> nor \<open>a\<close> is NaN. When the threshold parses to the duration
  \<open>d\<close>, testExecutionTimeAcceptable passes iff \<open>t > float64(d)\<close> is false, which is
  \<open>t <= d\<close> whenever \<open>t\<close> is not NaN and \<open>d\<close> is at most \<open>2 ^ 53\<close> nanoseconds in
  magnitude (about 104 days), so that the conversion of \<open>d\<close> is exact. With the
  threshold \<^verbatim>\<open>10m\<close>, 599,000,000,000 ns passes and 601,000,000,000 ns fails; with
  \<^verbatim>\<open>80%\<close>, 80.0 passes and 79.9 fails.
\<close>

theorem acceptability_direction:
  "(cond \<noteq> [] \<and> ParseFloat L (TrimSuffix cond ''%'') = Inr a \<longrightarrow>
      (coverageAcceptable L v cond = None) = (\<not> f64_lt v a)
      \<and> (\<not> is_NaN v \<and> \<not> is_NaN a \<longrightarrow> (coverageAcceptable L v cond = None) = f64_ge v a))
   \<and> (cond \<noteq> [] \<and> ParseFloat L (TrimPrefix cond ''1:'') = Inr a \<longrightarrow>
      (codeToTestRatioAcceptable L v cond = None) = (\<not> f64_lt v a)
      \<and> (\<not> is_NaN v \<and> \<not> is_NaN a \<longrightarrow>
            (codeToTestRatioAcceptable L v cond = None) = f64_ge v a))
   \<and> (cond \<noteq> [] \<and> duration_Parse L cond = Inr d \<longrightarrow>
      (testExecutionTimeAcceptable L t cond = None) = (\<not> f64_gt t (float64_of_int64 d))
      \<and> (\<not> is_NaN t \<and> \<bar>d\<bar> \<le> 2 ^ 53 \<longrightarrow>
            (testExecutionTimeAcceptable L t cond = None) = f64_le t (Finite (of_int d))))
   \<and> (duration_Parse L ''10m'' = Inr (10 * Minute) \<longrightarrow>
      testExecutionTimeAcceptable L (Finite 599000000000) ''10m'' = None
      \<and> testExecutionTimeAcceptable L (Finite 601000000000) ''10m'' \<noteq> None)
   \<and> (ParseFloat L ''80'' = Inr lit_80 \<longrightarrow>
      coverageAcceptable L lit_80 ''80%'' = None
      \<and> coverageAcceptable L lit_79_9 ''80%'' \<noteq> None)"
proof (intro conjI impI)
  assume h: "cond \<noteq> [] \<and> ParseFloat L (TrimSuffix cond ''%'') = Inr a"
  then show c: "(coverageAcceptable L v cond = None) = (\<not> f64_lt v a)"
    by (simp add: coverageAcceptable_passes_iff)
  assume "\<not> is_NaN v \<and> \<not> is_NaN a"
  then show "(coverageAcceptable L v cond = None) = f64_ge v a"
    using c by (simp add: f64_ge_iff_not_lt)
next
  assume h: "cond \<noteq> [] \<and> ParseFloat L (TrimPrefix cond ''1:'') = Inr a"
  then show c: "(codeToTestRatioAcceptable L v cond = None) = (\<not> f64_lt v a)"
    by (simp add: codeToTestRatioAcceptable_passes_iff)
  assume "\<not> is_NaN v \<and> \<not> is_NaN a"
  then show "(codeToTestRatioAcceptable L v cond = None) = f64_ge v a"
    using c by (simp add: f64_ge_iff_not_lt)
next
  assume h: "cond \<noteq> [] \<and> duration_Parse L cond = Inr d"
  then show c: "(testExecutionTimeAcceptable L t cond = None)
      = (\<not> f64_gt t (float64_of_int64 d))"
    by (simp add: testExecutionTimeAcceptable_passes_iff)
  assume "\<not> is_NaN t \<and> \<bar>d\<bar> \<le> 2 ^ 53"
  then show "(testExecutionTimeAcceptable L t cond = None) = f64_le t (Finite (of_int d))"
    using c by (simp add: float64_of_int64_exact f64_le_iff_not_gt)
next
  assume h: "duration_Parse L ''10m'' = Inr (10 * Minute)"
  have e: "float64_of_int64 600000000000 = Finite 600000000000"
    using float64_of_int64_exact [of 600000000000] by simp
  show "testExecutionTimeAcceptable L (Finite 599000000000) ''10m'' = None"
    using h by (simp add: testExecutionTimeAcceptable_def e f64_gt_def Minute_def)
  show "testExecutionTimeAcceptable L (Finite 601000000000) ''10m'' \<noteq> None"
    using h by (simp add: testExecutionTimeAcceptable_def e f64_gt_def Minute_def)
next
  assume h: "ParseFloat L ''80'' = Inr lit_80"
  have t: "TrimSuffix ''80%'' ''%'' = ''80''"
    by (simp add: TrimSuffix_def HasSuffix_def)
  show "coverageAcceptable L lit_80 ''80%'' = None"
    using h by (simp add: coverageAcceptable_def t lit_80_def)
  show "coverageAcceptable L lit_79_9 ''80%'' \<noteq> None"
    using h by (simp add: coverageAcceptable_def t lit_80_def lit_79_9_def)
qed

text \<open>C1 at concrete inputs, each hypothesis discharged with the stand-in library.\<close>

theorem acceptability_direction_witness:
  "(coverageAcceptable std_lib lit_79_9 ''80%'' = None) = f64_ge lit_79_9 lit_80
   \<and> (codeToTestRatioAcceptable std_lib lit_1_0 ''1:1'' = None) = f64_ge lit_1_0 (Finite 1)
   \<and> (testExecutionTimeAcceptable std_lib (Finite 599000000000) ''10m'' = None)
       = f64_le (Finite 599000000000) (Finite (of_int 600000000000))
   \<and> testExecutionTimeAcceptable std_lib (Finite 599000000000) ''10m'' = None
   \<and> testExecutionTimeAcceptable std_lib (Finite 601000000000) ''10m'' \<noteq> None
   \<and> coverageAcceptable std_lib lit_80 ''80%'' = None
   \<and> coverageAcceptable std_lib lit_79_9 ''80%'' \<noteq> None"
proof -
  have h1: "''80%'' \<noteq> [] \<and> ParseFloat std_lib (TrimSuffix ''80%'' ''%'') = Inr lit_80"
    by (simp add: TrimSuffix_def HasSuffix_def std_lib_simps std_ParseFloat_80)
  have n1: "\<not> is_NaN lit_79_9 \<and> \<not> is_NaN lit_80"
    by (simp add: lit_79_9_def lit_80_def)
  have h2: "''1:1'' \<noteq> [] \<and> ParseFloat std_lib (TrimPrefix ''1:1'' ''1:'') = Inr (Finite 1)"
    by (simp add: std_lib_simps TrimPrefix_def HasPrefix_def std_ParseFloat_def is_digit_def
          digits_val_def digit_val_def)
  have n2: "\<not> is_NaN lit_1_0 \<and> \<not> is_NaN (Finite 1)"
    by (simp add: lit_1_0_def)
  have h3: "''10m'' \<noteq> [] \<and> duration_Parse std_lib ''10m'' = Inr 600000000000"
    using std_duration_Parse_10m by (simp add: std_lib_simps Minute_def)
  have n3: "\<not> is_NaN (Finite 599000000000) \<and> \<bar>600000000000 :: int\<bar> \<le> 2 ^ 53"
    by simp
  have h4: "duration_Parse std_lib ''10m'' = Inr (10 * Minute)"
    by (simp add: std_lib_simps std_duration_Parse_10m)
  have h5: "ParseFloat std_lib ''80'' = Inr lit_80"
    by (simp add: std_lib_simps std_ParseFloat_80)
  note t1 = acceptability_direction [where cond = "''80%''" and L = std_lib and a = lit_80
      and v = lit_79_9, THEN conjunct1]
  note t2 = acceptability_direction [where cond = "''1:1''" and L = std_lib and a = "Finite 1"
      and v = lit_1_0, THEN conjunct2, THEN conjunct1]
  note t3 = acceptability_direction [where cond = "''10m''" and L = std_lib
      and d = 600000000000 and t = "Finite 599000000000",
      THEN conjunct2, THEN conjunct2, THEN conjunct1]
  note t4 = acceptability_direction [where L = std_lib,
      THEN conjunct2, THEN conjunct2, THEN conjunct2, THEN conjunct1]
  note t5 = acceptability_direction [where L = std_lib,
      THEN conjunct2, THEN conjunct2, THEN conjunct2, THEN conjunct2]
  have a: "(coverageAcceptable std_lib lit_79_9 ''80%'' = None) = f64_ge lit_79_9 lit_80"
    using t1 h1 n1 by blast
  have b: "(codeToTestRatioAcceptable std_lib lit_1_0 ''1:1'' = None)
      = f64_ge lit_1_0 (Finite 1)"
    using t2 h2 n2 by blast
  have c: "(testExecutionTimeAcceptable std_lib (Finite 599000000000) ''10m'' = None)
       = f64_le (Finite 599000000000) (Finite (of_int 600000000000))"
    using t3 h3 n3 by blast
  have d: "testExecutionTimeAcceptable std_lib (Finite 599000000000) ''10m'' = None
      \<and> testExecutionTimeAcceptable std_lib (Finite 601000000000) ''10m'' \<noteq> None"
    using t4 h4 by blast
  have e: "coverageAcceptable std_lib lit_80 ''80%'' = None
      \<and> coverageAcceptable std_lib lit_79_9 ''80%'' \<noteq> None"
    using t5 h5 by blast
  show ?thesis
    using a b c d e by blast
qed

text \<open>
  C1 as stated fails in two places. A NaN coverage passes the threshold \<^verbatim>\<open>80%\<close>
  although \<open>NaN >= 80\<close> is false. And with the threshold \<^verbatim>\<open>4611686019s\<close>, which is
  4611686019000000000 ns, the elapsed time 4611686019000000512 ns passes although it
  is above the threshold: \<^verbatim>\<open>float64(a)\<close> rounds the threshold up to that very value.
\<close>

theorem acceptability_direction_counterexample:
  "ParseFloat std_lib (TrimSuffix ''80%'' ''%'') = Inr lit_80
   \<and> coverageAcceptable std_lib NaN ''80%'' = None
   \<and> \<not> f64_ge NaN lit_80
   \<and> duration_Parse std_lib ''4611686019s'' = Inr 4611686019000000000
   \<and> testExecutionTimeAcceptable std_lib (Finite 4611686019000000512) ''4611686019s'' = None
   \<and> \<not> f64_le (Finite 4611686019000000512) (Finite 4611686019000000000)"
proof -
  have t: "TrimSuffix ''80%'' ''%'' = ''80''"
    by (simp add: TrimSuffix_def HasSuffix_def)
  show ?thesis
    by (simp add: t std_lib_simps std_ParseFloat_80 std_duration_Parse_big coverageAcceptable_def
          testExecutionTimeAcceptable_def float64_of_int64_big f64_gt_def f64_le_def)
qed

text \<open>
  C2. Each severity-tier mapper realises the breakpoint table. For every coverage
  value \<open>v\<close>, CoverageColor is green iff \<open>v >= 80\<close>, yellowgreen iff \<open>60 <= v < 80\<close>,
  yellow iff \<open>40 <= v < 60\<close>, orange iff \<open>20 <= v < 40\<close>, and red otherwise;
  CodeToTestRatioColor does the same with the breakpoints 1.2, 1.0, 0.8 and 0.6;
  TestExecutionTimeColor is green iff \<open>d\<close> is below 5 minutes, yellowgreen from 5 to
  below 10 minutes, yellow from 10 to below 15, orange from 15 to below 20, and red
  otherwise. For every input exactly one row of each table applies (a NaN falls in
  the last row), and the boundary values 80.0, 60.0, 1.2, 1.0 and exactly 5 minutes
  land in the tier the table gives. The comparisons are Go's on float64 and on
  durations.
\<close>

theorem severity_tiers:
  "((CoverageColor v = green) = f64_ge v lit_80
    \<and> (CoverageColor v = yellowgreen) = (f64_ge v lit_60 \<and> f64_lt v lit_80)
    \<and> (CoverageColor v = yellow) = (f64_ge v lit_40 \<and> f64_lt v lit_60)
    \<and> (CoverageColor v = orange) = (f64_ge v lit_20 \<and> f64_lt v lit_40)
    \<and> (CoverageColor v = red) = (\<not> f64_ge v lit_20)
    \<and> exactly_one [f64_ge v lit_80, f64_ge v lit_60 \<and> f64_lt v lit_80,
         f64_ge v lit_40 \<and> f64_lt v lit_60, f64_ge v lit_20 \<and> f64_lt v lit_40,
         \<not> f64_ge v lit_20])
   \<and> ((CodeToTestRatioColor v = green) = f64_ge v lit_1_2
    \<and> (CodeToTestRatioColor v = yellowgreen) = (f64_ge v lit_1_0 \<and> f64_lt v lit_1_2)
    \<and> (CodeToTestRatioColor v = yellow) = (f64_ge v lit_0_8 \<and> f64_lt v lit_1_0)
    \<and> (CodeToTestRatioColor v = orange) = (f64_ge v lit_0_6 \<and> f64_lt v lit_0_8)
    \<and> (CodeToTestRatioColor v = red) = (\<not> f64_ge v lit_0_6)
    \<and> exactly_one [f64_ge v lit_1_2, f64_ge v lit_1_0 \<and> f64_lt v lit_1_2,
         f64_ge v lit_0_8 \<and> f64_lt v lit_1_0, f64_ge v lit_0_6 \<and> f64_lt v lit_0_8,
         \<not> f64_ge v lit_0_6])
   \<and> ((TestExecutionTimeColor d = green) = (d < 5 * Minute)
    \<and> (TestExecutionTimeColor d = yellowgreen) = (5 * Minute \<le> d \<and> d < 10 * Minute)
    \<and> (TestExecutionTimeColor d = yellow) = (10 * Minute \<le> d \<and> d < 15 * Minute)
    \<and> (TestExecutionTimeColor d = orange) = (15 * Minute \<le> d \<and> d < 20 * Minute)
    \<and> (TestExecutionTimeColor d = red) = (\<not> d < 20 * Minute)
    \<and> exactly_one [d < 5 * Minute, 5 * Minute \<le> d \<and> d < 10 * Minute,
         10 * Minute \<le> d \<and> d < 15 * Minute, 15 * Minute \<le> d \<and> d < 20 * Minute,
         \<not> d < 20 * Minute])
   \<and> CoverageColor lit_80 = green \<and> CoverageColor lit_60 = yellowgreen
   \<and> CodeToTestRatioColor lit_1_2 = green \<and> CodeToTestRatioColor lit_1_0 = yellowgreen
   \<and> TestExecutionTimeColor (5 * Minute) = yellowgreen"
proof -
  have boundaries:
    "CoverageColor lit_80 = green" "CoverageColor lit_60 = yellowgreen"
    "CodeToTestRatioColor lit_1_2 = green" "CodeToTestRatioColor lit_1_0 = yellowgreen"
    "TestExecutionTimeColor (5 * Minute) = yellowgreen"
    by (simp_all add: CoverageColor_def CodeToTestRatioColor_def TestExecutionTimeColor_def
          lit_80_def lit_60_def lit_1_2_def lit_1_0_def Minute_def)
  show ?thesis
    by (intro conjI CoverageColor_tiers CoverageColor_partition CodeToTestRatioColor_tiers
          CodeToTestRatioColor_partition TestExecutionTimeColor_tiers
          TestExecutionTimeColor_partition boundaries)
qed



text \<open>
  C4. For the empty gate expression CheckIf returns \<^verbatim>\<open>(true, nil)\<close> at once: the log
  of calls is empty (no event decoding, no repository parsing, no client call, no
  evaluation) and the configuration is unchanged.
\<close>

theorem CheckIf_empty_expression:
  "CheckIf w c [] = (Return True None, c, [])"
  by (simp add: CheckIf_def)

text \<open>
  C5. When the expression is not empty, the event decodes, the repository identifier
  is not empty and parses, a client is at hand (the cached one, or a new one) and the
  default-branch lookup succeeds, CheckIf evaluates the formula and returns the
  evaluator's verdict: a boolean result \<open>b\<close> is returned as \<^verbatim>\<open>(b, nil)\<close>. An error of
  the current-branch detection makes \<open>is_default_branch\<close> false in the variables, an
  error of the pull-request detection makes \<open>is_pull_request\<close> false, and neither error
  is returned.
\<close>

theorem context_degrades:
  assumes "cond \<noteq> []"
    and "DecodeGitHubEvent w = Inr e"
    and "Repository c \<noteq> []"
    and "gh_Parse w (Repository c) = Inr repo"
    and "CheckIf_client w c = Inr (g, c', new)"
    and "GetDefaultBranch w g (Owner repo) (Repo repo) = Inr defaultBranch"
    and "vars = CheckIf_variables w e (isDefaultBranch w g defaultBranch) (isPullRequest w g repo)"
  shows "fst (CheckIf w c cond) = CheckIf_result (Eval w (formula cond) vars)
    \<and> evaluated (snd (snd (CheckIf w c cond))) = [formula cond]
    \<and> (DetectCurrentBranch w g = Inl err \<longrightarrow> is_default_branch vars = False)
    \<and> (DetectCurrentPullRequestNumber w g (Owner repo) (Repo repo) = Inl err' \<longrightarrow>
          is_pull_request vars = False)
    \<and> (Eval w (formula cond) vars = Inr (DBool b) \<longrightarrow> fst (CheckIf w c cond) = Return b None)"
proof -
  have run: "CheckIf w c cond =
     (CheckIf_result (Eval w (formula cond) vars), c',
      [Call_DecodeGitHubEvent, Call_Parse (Repository c)] @ new
      @ [Call_GetDefaultBranch (Owner repo) (Repo repo),
         Call_DetectCurrentBranch,
         Call_DetectCurrentPullRequestNumber (Owner repo) (Repo repo),
         Call_Now, Call_Environ, Call_Eval (formula cond)])"
    unfolding assms(7) using assms(1-6) by (rule CheckIf_evaluates)
  have new: "evaluated new = []"
    using assms(5) by (rule CheckIf_client_log)
  have 1: "fst (CheckIf w c cond) = CheckIf_result (Eval w (formula cond) vars)"
    by (simp add: run)
  have 2: "evaluated (snd (snd (CheckIf w c cond))) = [formula cond]"
    by (simp add: run evaluated_append new)
  have 3: "DetectCurrentBranch w g = Inl err \<longrightarrow> is_default_branch vars = False"
    by (simp add: assms(7) CheckIf_variables_def isDefaultBranch_def)
  have 4: "DetectCurrentPullRequestNumber w g (Owner repo) (Repo repo) = Inl err' \<longrightarrow>
          is_pull_request vars = False"
    by (simp add: assms(7) CheckIf_variables_def isPullRequest_def)
  have 5: "Eval w (formula cond) vars = Inr (DBool b) \<longrightarrow> fst (CheckIf w c cond) = Return b None"
    unfolding 1 by (simp add: CheckIf_result_def)
  show ?thesis
    using 1 2 3 4 5 by blast
qed

text \<open>C5 in a run where both detections fail: the gate \<^verbatim>\<open>is_pull_request\<close> is
  evaluated and is false, without an error.\<close>

theorem context_degrades_witness:
  "fst (CheckIf (std_world (Inl (Error ''detached HEAD'')) (Inl (Error ''no pull request'')))
         std_config ''is_pull_request'') = Return False None
   \<and> evaluated (snd (snd (CheckIf
         (std_world (Inl (Error ''detached HEAD'')) (Inl (Error ''no pull request'')))
         std_config ''is_pull_request''))) = [''(is_pull_request) == true'']
   \<and> is_default_branch (CheckIf_variables
         (std_world (Inl (Error ''detached HEAD'')) (Inl (Error ''no pull request'')))
         \<lparr> Name = ''push'', Payload = EventPayload ''{}'' \<rparr> False False) = False"
proof -
  let ?w = "std_world (Inl (Error ''detached HEAD'')) (Inl (Error ''no pull request''))"
  let ?e = "\<lparr> Name = ''push'', Payload = EventPayload ''{}'' \<rparr>"
  let ?repo = "\<lparr> Owner = ''k1LoW'', Repo = ''octocov'' \<rparr>"
  let ?c' = "std_config\<lparr>gh := Some (GhClient 0)\<rparr>"
  let ?vars = "CheckIf_variables ?w ?e (isDefaultBranch ?w (GhClient 0) ''main'')
      (isPullRequest ?w (GhClient 0) ?repo)"
  have h: "DecodeGitHubEvent ?w = Inr ?e" "Repository std_config \<noteq> []"
    "gh_Parse ?w (Repository std_config) = Inr ?repo"
    "CheckIf_client ?w std_config = Inr (GhClient 0, ?c', [Call_New])"
    "GetDefaultBranch ?w (GhClient 0) (Owner ?repo) (Repo ?repo) = Inr ''main''"
    by (simp_all add: std_world_def std_config_def CheckIf_client_def)
  have d: "DetectCurrentBranch ?w (GhClient 0) = Inl (Error ''detached HEAD'')"
    "DetectCurrentPullRequestNumber ?w (GhClient 0) (Owner ?repo) (Repo ?repo)
       = Inl (Error ''no pull request'')"
    by (simp_all add: std_world_def)
  have n: "''is_pull_request'' \<noteq> []" by simp
  note t = context_degrades [OF n h refl, where err = "Error ''detached HEAD''"
      and err' = "Error ''no pull request''" and b = False]
  have v: "?vars = CheckIf_variables ?w ?e False False"
    by (simp add: isDefaultBranch_def isPullRequest_def std_world_def)
  have p: "is_pull_request ?vars = False" using t d by blast
  have ev: "Eval ?w (formula ''is_pull_request'') ?vars = Inr (DBool False)"
    using p by (simp add: formula_def std_world_def std_Eval_def)
  have a: "fst (CheckIf ?w std_config ''is_pull_request'') = Return False None"
    using t ev by blast
  have "evaluated (snd (snd (CheckIf ?w std_config ''is_pull_request'')))
      = [formula ''is_pull_request'']"
    using t by blast
  then have b: "evaluated (snd (snd (CheckIf ?w std_config ''is_pull_request'')))
      = [''(is_pull_request) == true'']"
    by (simp add: formula_def)
  have "is_default_branch ?vars = False"
    using t d by blast
  then have c: "is_default_branch (CheckIf_variables ?w ?e False False) = False"
    unfolding v .
  show ?thesis
    using a b c by blast
qed

text \<open>
  C6. With the empty threshold string each of the three acceptability checks returns
  \<^verbatim>\<open>nil\<close>, whatever the value and whatever the library.
\<close>

theorem empty_threshold_passes:
  "coverageAcceptable L v [] = None
   \<and> codeToTestRatioAcceptable L v [] = None
   \<and> testExecutionTimeAcceptable L v [] = None"
  by (simp add: coverageAcceptable_def codeToTestRatioAcceptable_def
        testExecutionTimeAcceptable_def)

text \<open>
  C7, as amended. When a check fails on its comparison, the message holds the
  observed value and the accepted threshold: coverage and ratio both printed with
  \<^verbatim>\<open>%.1f\<close> (one decimal place); execution time and its threshold both printed as
  durations (\<^verbatim>\<open>time.Duration\<close>'s own text), the observed float64 cut to whole
  nanoseconds first (negative zero to 0), provided that number fits an int64. When it
  does not (an
  observed value of \<open>2 ^ 63\<close> ns or more, or plus infinity), the duration printed is
  the implementation's choice for the conversion and not the observed value; the
  threshold is printed all the same. In particular, when \<^verbatim>\<open>ParseFloat\<close> reads
  \<^verbatim>\<open>80\<close> as 80, the message of \<^verbatim>\<open>coverageAcceptable(79.9, "80%")\<close> contains both
  \<^verbatim>\<open>79.9\<close> and \<^verbatim>\<open>80.0\<close>.
\<close>

theorem failure_message:
  "(cond \<noteq> [] \<and> ParseFloat L (TrimSuffix cond ''%'') = Inr a \<and> f64_lt cov a \<longrightarrow>
      coverageAcceptable L cov cond
        = Some (Error (''code coverage is '' @ fmt_f1 cov
                 @ ''%, which is below the accepted '' @ fmt_f1 a @ ''%'')))
   \<and> (cond \<noteq> [] \<and> ParseFloat L (TrimPrefix cond ''1:'') = Inr a \<and> f64_lt ratio a \<longrightarrow>
      codeToTestRatioAcceptable L ratio cond
        = Some (Error (''code to test ratio is 1:'' @ fmt_f1 ratio
                 @ '', which is below the accepted 1:'' @ fmt_f1 a)))
   \<and> (cond \<noteq> [] \<and> duration_Parse L cond = Inr d \<and> f64_gt u (float64_of_int64 d)
       \<and> (u = NegZero \<or> u = Finite (f64_val u)) \<and> int64_range (trunc (f64_val u)) \<longrightarrow>
      testExecutionTimeAcceptable L u cond
        = Some (Error (''test execution time is '' @ Duration_String L (trunc (f64_val u))
                 @ '', which is above the accepted '' @ Duration_String L d)))
   \<and> (cond \<noteq> [] \<and> duration_Parse L cond = Inr d \<and> f64_gt t (float64_of_int64 d)
       \<and> (t = PosInf \<or> (\<exists>q. t = Finite q \<and> \<not> int64_range (trunc q))) \<longrightarrow>
      testExecutionTimeAcceptable L t cond
        = Some (Error (''test execution time is '' @ Duration_String L (conv_impl L t)
                 @ '', which is above the accepted '' @ Duration_String L d)))
   \<and> (ParseFloat L ''80'' = Inr lit_80 \<longrightarrow>
      (\<exists>msg. coverageAcceptable L lit_79_9 ''80%'' = Some (Error msg)
         \<and> Contains msg ''79.9'' \<and> Contains msg ''80.0''))"
proof (intro conjI impI)
  assume "cond \<noteq> [] \<and> ParseFloat L (TrimSuffix cond ''%'') = Inr a \<and> f64_lt cov a"
  then show "coverageAcceptable L cov cond
        = Some (Error (''code coverage is '' @ fmt_f1 cov
                 @ ''%, which is below the accepted '' @ fmt_f1 a @ ''%''))"
    by (simp add: coverageAcceptable_def)
next
  assume "cond \<noteq> [] \<and> ParseFloat L (TrimPrefix cond ''1:'') = Inr a \<and> f64_lt ratio a"
  then show "codeToTestRatioAcceptable L ratio cond
        = Some (Error (''code to test ratio is 1:'' @ fmt_f1 ratio
                 @ '', which is below the accepted 1:'' @ fmt_f1 a))"
    by (simp add: codeToTestRatioAcceptable_def)
next
  assume "cond \<noteq> [] \<and> duration_Parse L cond = Inr d \<and> f64_gt u (float64_of_int64 d)
       \<and> (u = NegZero \<or> u = Finite (f64_val u)) \<and> int64_range (trunc (f64_val u))"
  then show "testExecutionTimeAcceptable L u cond
        = Some (Error (''test execution time is '' @ Duration_String L (trunc (f64_val u))
                 @ '', which is above the accepted '' @ Duration_String L d))"
    by (cases u) (simp_all add: testExecutionTimeAcceptable_def Duration_of_float64_def trunc_def)
next
  assume "cond \<noteq> [] \<and> duration_Parse L cond = Inr d \<and> f64_gt t (float64_of_int64 d)
       \<and> (t = PosInf \<or> (\<exists>q. t = Finite q \<and> \<not> int64_range (trunc q)))"
  then show "testExecutionTimeAcceptable L t cond
        = Some (Error (''test execution time is '' @ Duration_String L (conv_impl L t)
                 @ '', which is above the accepted '' @ Duration_String L d))"
    by (auto simp: testExecutionTimeAcceptable_def Duration_of_float64_def)
next
  assume h: "ParseFloat L ''80'' = Inr lit_80"
  have t: "TrimSuffix ''80%'' ''%'' = ''80''"
    by (simp add: TrimSuffix_def HasSuffix_def)
  have lt: "f64_lt lit_79_9 lit_80"
    by (simp add: lit_79_9_def lit_80_def)
  let ?pre = "''code coverage is '' @ ''79.9'' @ ''%, which is below the accepted ''"
  let ?msg = "''code coverage is '' @ ''79.9'' @ ''%, which is below the accepted ''
                @ ''80.0'' @ ''%''"
  have "coverageAcceptable L lit_79_9 ''80%'' = Some (Error ?msg)"
    using h lt by (simp add: coverageAcceptable_def t fmt_f1_79_9 fmt_f1_80)
  moreover have "Contains ?msg ''79.9''"
    by (rule Contains_append)
  moreover have "Contains ?msg ''80.0''"
    using Contains_append [of ?pre "''80.0''" "''%''"] by simp
  ultimately show "\<exists>msg. coverageAcceptable L lit_79_9 ''80%'' = Some (Error msg)
         \<and> Contains msg ''79.9'' \<and> Contains msg ''80.0''"
    by blast
qed

text \<open>
  C7 with the stand-in library: the messages in full. An observed 601500000000.5 ns
  is printed as the duration of 601500000000 ns.
\<close>

theorem failure_message_witness:
  "coverageAcceptable std_lib lit_79_9 ''80%''
     = Some (Error ''code coverage is 79.9%, which is below the accepted 80.0%'')
   \<and> codeToTestRatioAcceptable std_lib (Finite (1 / 2)) ''1:1''
     = Some (Error ''code to test ratio is 1:0.5, which is below the accepted 1:1.0'')
   \<and> testExecutionTimeAcceptable std_lib (Finite 601000000000) ''10m''
     = Some (Error ''test execution time is 10m1s, which is above the accepted 10m0s'')
   \<and> testExecutionTimeAcceptable std_lib (Finite (1203000000001 / 2)) ''10m''
     = Some (Error ''test execution time is 10m1.5s, which is above the accepted 10m0s'')
   \<and> testExecutionTimeAcceptable std_lib PosInf ''10m''
     = Some (Error (''test execution time is '' @ std_Duration_String (- (2 ^ 63))
          @ '', which is above the accepted 10m0s''))
   \<and> (\<exists>msg. coverageAcceptable std_lib lit_79_9 ''80%'' = Some (Error msg)
         \<and> Contains msg ''79.9'' \<and> Contains msg ''80.0'')"
proof -
  have h1: "''80%'' \<noteq> [] \<and> ParseFloat std_lib (TrimSuffix ''80%'' ''%'') = Inr lit_80
      \<and> f64_lt lit_79_9 lit_80"
    by (simp add: TrimSuffix_def HasSuffix_def std_lib_simps std_ParseFloat_80)
       (simp add: lit_79_9_def lit_80_def)
  have h2: "''1:1'' \<noteq> [] \<and> ParseFloat std_lib (TrimPrefix ''1:1'' ''1:'') = Inr (Finite 1)
      \<and> f64_lt (Finite (1 / 2)) (Finite 1)"
    by (simp add: std_lib_simps TrimPrefix_def HasPrefix_def std_ParseFloat_def is_digit_def
          digits_val_def digit_val_def)
  have e: "float64_of_int64 600000000000 = Finite 600000000000"
    using float64_of_int64_exact [of 600000000000] by simp
  have p: "duration_Parse std_lib ''10m'' = Inr 600000000000"
    using std_duration_Parse_10m by (simp add: std_lib_simps Minute_def)
  have h3: "''10m'' \<noteq> [] \<and> duration_Parse std_lib ''10m'' = Inr 600000000000
      \<and> f64_gt (Finite 601000000000) (float64_of_int64 600000000000)
      \<and> (Finite 601000000000 = NegZero
          \<or> Finite 601000000000 = Finite (f64_val (Finite 601000000000)))
      \<and> int64_range (trunc (f64_val (Finite 601000000000)))"
    using p by (simp add: e f64_gt_def trunc_def int64_range_def)
  have fl: "\<lfloor>1203000000001 / 2 :: rat\<rfloor> = 601500000000"
    by (rule floor_unique) simp_all
  have tr: "trunc 601000000000 = 601000000000" "trunc (1203000000001 / 2) = 601500000000"
    by (simp_all add: trunc_def fl)
  have h3': "''10m'' \<noteq> [] \<and> duration_Parse std_lib ''10m'' = Inr 600000000000
      \<and> f64_gt (Finite (1203000000001 / 2)) (float64_of_int64 600000000000)
      \<and> (Finite (1203000000001 / 2) = NegZero
          \<or> Finite (1203000000001 / 2) = Finite (f64_val (Finite (1203000000001 / 2))))
      \<and> int64_range (trunc (f64_val (Finite (1203000000001 / 2))))"
    using p by (simp add: e f64_gt_def tr int64_range_def)
  have h3'': "''10m'' \<noteq> [] \<and> duration_Parse std_lib ''10m'' = Inr 600000000000
      \<and> f64_gt PosInf (float64_of_int64 600000000000)
      \<and> (PosInf = PosInf \<or> (\<exists>q. PosInf = Finite q \<and> \<not> int64_range (trunc q)))"
    using p by (simp add: e f64_gt_def)
  have h4: "ParseFloat std_lib ''80'' = Inr lit_80"
    by (simp add: std_lib_simps std_ParseFloat_80)
  have s15: "std_Duration_String 601500000000 = ''10m1.5s''"
    by (simp add: std_Duration_String_def fmtFrac_def Let_def show_nat_small show_nat_large
          digit_char_def)
  have c1: "coverageAcceptable std_lib lit_79_9 ''80%''
      = Some (Error ''code coverage is 79.9%, which is below the accepted 80.0%'')"
    using failure_message [where cond = "''80%''" and L = std_lib and a = lit_80
        and cov = lit_79_9, THEN conjunct1] h1
    by (simp add: fmt_f1_79_9 fmt_f1_80)
  have c2: "codeToTestRatioAcceptable std_lib (Finite (1 / 2)) ''1:1''
      = Some (Error ''code to test ratio is 1:0.5, which is below the accepted 1:1.0'')"
    using failure_message [where cond = "''1:1''" and L = std_lib and a = "Finite 1"
        and ratio = "Finite (1 / 2)", THEN conjunct2, THEN conjunct1] h2
    by (simp add: fmt_f1_half fmt_f1_one)
  have c3: "testExecutionTimeAcceptable std_lib (Finite 601000000000) ''10m''
      = Some (Error ''test execution time is 10m1s, which is above the accepted 10m0s'')"
    using failure_message [where cond = "''10m''" and L = std_lib and d = 600000000000
        and u = "Finite 601000000000", THEN conjunct2, THEN conjunct2, THEN conjunct1] h3
    by (simp add: std_lib_simps tr std_Duration_String_ex)
  have c3': "testExecutionTimeAcceptable std_lib (Finite (1203000000001 / 2)) ''10m''
      = Some (Error ''test execution time is 10m1.5s, which is above the accepted 10m0s'')"
    using failure_message [where cond = "''10m''" and L = std_lib and d = 600000000000
        and u = "Finite (1203000000001 / 2)", THEN conjunct2, THEN conjunct2, THEN conjunct1] h3'
    by (simp add: std_lib_simps tr std_Duration_String_ex s15)
  have c3'': "testExecutionTimeAcceptable std_lib PosInf ''10m''
     = Some (Error (''test execution time is '' @ std_Duration_String (- (2 ^ 63))
          @ '', which is above the accepted 10m0s''))"
    using failure_message [where cond = "''10m''" and L = std_lib and d = 600000000000
        and t = PosInf, THEN conjunct2, THEN conjunct2, THEN conjunct2, THEN conjunct1] h3''
    by (simp add: std_lib_simps std_Duration_String_ex)
  have c4: "\<exists>msg. coverageAcceptable std_lib lit_79_9 ''80%'' = Some (Error msg)
         \<and> Contains msg ''79.9'' \<and> Contains msg ''80.0''"
    using failure_message [where L = std_lib, THEN conjunct2, THEN conjunct2,
        THEN conjunct2, THEN conjunct2] h4
    by blast
  show ?thesis
    using c1 c2 c3 c3' c3'' c4 by blast
qed

text \<open>
  C7 as stated fails for an observed time that no int64 holds. With the threshold
  \<^verbatim>\<open>10m\<close>, an observed \<open>10 ^ 19\<close> ns (about 2777777 hours) and an observed plus
  infinity both fail the check, and where the implementation answers an
  out-of-range conversion with the least int64 (as amd64 does) both messages show
  the duration \<^verbatim>\<open>-2562047h47m16.854775808s\<close>, which is not the observed value.
\<close>

theorem failure_message_counterexample:
  "testExecutionTimeAcceptable std_lib (Finite (10 ^ 19)) ''10m''
     = Some (Error ''test execution time is -2562047h47m16.854775808s, which is above the accepted 10m0s'')
   \<and> testExecutionTimeAcceptable std_lib PosInf ''10m''
     = Some (Error ''test execution time is -2562047h47m16.854775808s, which is above the accepted 10m0s'')"
proof -
  have e: "float64_of_int64 600000000000 = Finite 600000000000"
    using float64_of_int64_exact [of 600000000000] by simp
  have p: "std_duration_Parse ''10m'' = Inr 600000000000"
    using std_duration_Parse_10m by (simp add: Minute_def)
  have s: "std_Duration_String (- 9223372036854775808) = ''-2562047h47m16.854775808s''"
    by (simp add: std_Duration_String_def fmtFrac_def Let_def show_nat_small show_nat_large
          digit_char_def)
  show ?thesis
    by (simp add: testExecutionTimeAcceptable_def std_lib_simps p e f64_gt_def
          Duration_of_float64_def trunc_def int64_range_def s std_Duration_String_ex)
qed

text \<open>
  C8. Let the list that \<^verbatim>\<open>os.Environ()\<close> returns hold the entry \<open>K=V\<close>, where \<open>K\<close> has
  no \<open>=\<close> (the entry is split at its first \<open>=\<close>; \<open>V\<close> may hold more of them), and no
  other entry with the name \<open>K\<close> (on Unix the Go runtime keeps one entry for each
  name, so this holds of every entry). Then, once CheckIf has assembled its context,
  the variables it hands to the evaluator hold under \<open>env\<close> a map that sends \<open>K\<close> to
  the whole of \<open>V\<close>; the keys of that map are the names of all the entries that hold
  an \<open>=\<close>, so no variable is filtered out.
\<close>

theorem env_exposes_environment:
  assumes "cond \<noteq> []"
    and "DecodeGitHubEvent w = Inr e"
    and "Repository c \<noteq> []"
    and "gh_Parse w (Repository c) = Inr repo"
    and "CheckIf_client w c = Inr (g, c', new)"
    and "GetDefaultBranch w g (Owner repo) (Repo repo) = Inr defaultBranch"
    and "vars = CheckIf_variables w e (isDefaultBranch w g defaultBranch) (isPullRequest w g repo)"
    and "Environ w = before @ [K @ ''='' @ V] @ after"
    and "CHR ''='' \<notin> set K"
    and "\<forall>x \<in> set (before @ after). \<not> HasPrefix x (K @ ''='')"
  shows "fst (CheckIf w c cond) = CheckIf_result (Eval w (formula cond) vars)
    \<and> env vars K = Some V
    \<and> dom (env vars)
        = takeWhile (\<lambda>c. c \<noteq> CHR ''='') ` {x \<in> set (Environ w). CHR ''='' \<in> set x}"
proof -
  have "CheckIf w c cond =
     (CheckIf_result (Eval w (formula cond) vars), c',
      [Call_DecodeGitHubEvent, Call_Parse (Repository c)] @ new
      @ [Call_GetDefaultBranch (Owner repo) (Repo repo),
         Call_DetectCurrentBranch,
         Call_DetectCurrentPullRequestNumber (Owner repo) (Repo repo),
         Call_Now, Call_Environ, Call_Eval (formula cond)])"
    unfolding assms(7) using assms(1-6) by (rule CheckIf_evaluates)
  then have 1: "fst (CheckIf w c cond) = CheckIf_result (Eval w (formula cond) vars)"
    by simp
  have m: "env vars = envMap (Environ w)"
    by (simp add: assms(7) CheckIf_variables_def)
  have later: "\<forall>x \<in> set after. \<not> HasPrefix x (K @ ''='')"
    using assms(10) by simp
  have 2: "env vars K = Some V"
    unfolding m using assms(8) assms(9) later by (rule envMap_last_entry)
  have 3: "dom (env vars)
        = takeWhile (\<lambda>c. c \<noteq> CHR ''='') ` {x \<in> set (Environ w). CHR ''='' \<in> set x}"
    unfolding m by (simp add: envMap_def dom_envMap_loop)
  show ?thesis
    using 1 2 3 by blast
qed

text \<open>C8 in a run of the stand-in world, at an entry whose value holds an \<open>=\<close>.\<close>

theorem env_exposes_environment_witness:
  "env (CheckIf_variables (std_world (Inr ''main'') (Inr 7))
          \<lparr> Name = ''push'', Payload = EventPayload ''{}'' \<rparr> True True) ''OPTS''
     = Some ''a=b''
   \<and> fst (CheckIf (std_world (Inr ''main'') (Inr 7)) std_config ''is_pull_request'')
     = CheckIf_result (Eval (std_world (Inr ''main'') (Inr 7)) (formula ''is_pull_request'')
         (CheckIf_variables (std_world (Inr ''main'') (Inr 7))
            \<lparr> Name = ''push'', Payload = EventPayload ''{}'' \<rparr> True True))"
proof -
  let ?w = "std_world (Inr ''main'') (Inr 7)"
  let ?e = "\<lparr> Name = ''push'', Payload = EventPayload ''{}'' \<rparr>"
  let ?repo = "\<lparr> Owner = ''k1LoW'', Repo = ''octocov'' \<rparr>"
  let ?c' = "std_config\<lparr>gh := Some (GhClient 0)\<rparr>"
  let ?vars = "CheckIf_variables ?w ?e (isDefaultBranch ?w (GhClient 0) ''main'')
      (isPullRequest ?w (GhClient 0) ?repo)"
  have h: "DecodeGitHubEvent ?w = Inr ?e" "Repository std_config \<noteq> []"
    "gh_Parse ?w (Repository std_config) = Inr ?repo"
    "CheckIf_client ?w std_config = Inr (GhClient 0, ?c', [Call_New])"
    "GetDefaultBranch ?w (GhClient 0) (Owner ?repo) (Repo ?repo) = Inr ''main''"
    by (simp_all add: std_world_def std_config_def CheckIf_client_def)
  have n: "''is_pull_request'' \<noteq> []" by simp
  have h1: "Environ ?w
      = [''HOME=/root''] @ [''OPTS'' @ ''='' @ ''a=b''] @ [''GITHUB_REPOSITORY=k1LoW/octocov'']"
    by (simp add: std_world_def)
  have h2: "CHR ''='' \<notin> set ''OPTS''" by simp
  have h3: "\<forall>x \<in> set ([''HOME=/root''] @ [''GITHUB_REPOSITORY=k1LoW/octocov'']).
      \<not> HasPrefix x (''OPTS'' @ ''='')"
    by (simp add: HasPrefix_def)
  have v: "?vars = CheckIf_variables ?w ?e True True"
    by (simp add: isDefaultBranch_def isPullRequest_def std_world_def)
  note t = env_exposes_environment [OF n h refl h1 h2 h3]
  have a: "env ?vars ''OPTS'' = Some ''a=b''"
    using t by blast
  have b: "fst (CheckIf ?w std_config ''is_pull_request'')
      = CheckIf_result (Eval ?w (formula ''is_pull_request'') ?vars)"
    using t by blast
  show ?thesis
    using a b unfolding v by blast
qed

text \<open>
  C9. The markers of the percentage and the ratio grammar are optional. For a string
  \<open>s\<close> that is not empty, does not end in \<^verbatim>\<open>%\<close> and does not begin with \<^verbatim>\<open>1:\<close>
  (every string that parses as a decimal number is such a string), the coverage check
  gives the same result for \<open>s\<close> and for \<open>s\<close> followed by \<^verbatim>\<open>%\<close>, and the ratio check
  the same result for \<open>s\<close> and for \<^verbatim>\<open>1:\<close> followed by \<open>s\<close>, whatever the value and
  whatever \<^verbatim>\<open>ParseFloat\<close> computes.
\<close>

theorem grammar_markers_optional:
  assumes "s \<noteq> []" and "\<not> HasSuffix s ''%''" and "\<not> HasPrefix s ''1:''"
  shows "coverageAcceptable L v s = coverageAcceptable L v (s @ ''%'')
         \<and> codeToTestRatioAcceptable L v s = codeToTestRatioAcceptable L v (''1:'' @ s)"
proof -
  have "TrimSuffix s ''%'' = s" using assms(2) by (simp add: TrimSuffix_def)
  moreover have "TrimSuffix (s @ ''%'') ''%'' = s" by (rule TrimSuffix_append)
  moreover have "TrimPrefix s ''1:'' = s" using assms(3) by (simp add: TrimPrefix_def)
  moreover have "TrimPrefix (''1:'' @ s) ''1:'' = s" by (rule TrimPrefix_append)
  ultimately show ?thesis
    using assms(1) by (simp add: coverageAcceptable_def codeToTestRatioAcceptable_def)
qed

text \<open>C9 at the string \<^verbatim>\<open>80\<close> and the value 79.9.\<close>

theorem grammar_markers_optional_witness:
  "''80'' \<noteq> [] \<and> \<not> HasSuffix ''80'' ''%'' \<and> \<not> HasPrefix ''80'' ''1:''
   \<and> coverageAcceptable std_lib lit_79_9 ''80'' = coverageAcceptable std_lib lit_79_9 ''80%''
   \<and> codeToTestRatioAcceptable std_lib lit_79_9 ''80''
       = codeToTestRatioAcceptable std_lib lit_79_9 ''1:80''
   \<and> coverageAcceptable std_lib lit_79_9 ''80'' \<noteq> None
   \<and> codeToTestRatioAcceptable std_lib lit_79_9 ''80'' \<noteq> None"
proof -
  have h: "''80'' \<noteq> []" "\<not> HasSuffix ''80'' ''%''" "\<not> HasPrefix ''80'' ''1:''"
    by (simp_all add: HasSuffix_def HasPrefix_def)
  have v: "coverageAcceptable std_lib lit_79_9 ''80'' \<noteq> None"
    "codeToTestRatioAcceptable std_lib lit_79_9 ''80'' \<noteq> None"
    by (simp_all add: coverageAcceptable_def codeToTestRatioAcceptable_def TrimSuffix_def
          TrimPrefix_def HasSuffix_def HasPrefix_def std_lib_simps std_ParseFloat_80
          lit_80_def lit_79_9_def)
  show ?thesis
    using grammar_markers_optional [OF h, of std_lib lit_79_9] h v by simp
qed

text \<open>
  C10. The type assertion at the end of CheckIf. CheckIf can panic only there, and
  once the context is assembled it does so exactly when the evaluator returns,
  without an error, a value that is not a boolean for the formula
  \<^verbatim>\<open>(cond) == true\<close>; a boolean \<open>b\<close> is returned as \<^verbatim>\<open>(b, nil)\<close> and an error as
  \<^verbatim>\<open>(false, err)\<close>. So CheckIf never panics if and only if the evaluator gives every
  such formula a boolean or an error.
\<close>

theorem CheckIf_type_assertion:
  assumes "cond \<noteq> []"
    and "DecodeGitHubEvent w = Inr e"
    and "Repository c \<noteq> []"
    and "gh_Parse w (Repository c) = Inr repo"
    and "CheckIf_client w c = Inr (g, c', new)"
    and "GetDefaultBranch w g (Owner repo) (Repo repo) = Inr defaultBranch"
    and "vars = CheckIf_variables w e (isDefaultBranch w g defaultBranch) (isPullRequest w g repo)"
  shows "(fst (CheckIf w c cond) = Panic)
        = (\<exists>v. Eval w (formula cond) vars = Inr v \<and> (\<forall>b. v \<noteq> DBool b))
    \<and> (Eval w (formula cond) vars = Inr (DBool b) \<longrightarrow> fst (CheckIf w c cond) = Return b None)
    \<and> (Eval w (formula cond) vars = Inl err \<longrightarrow>
          fst (CheckIf w c cond) = Return False (Some err))"
proof -
  have "CheckIf w c cond =
     (CheckIf_result (Eval w (formula cond) vars), c',
      [Call_DecodeGitHubEvent, Call_Parse (Repository c)] @ new
      @ [Call_GetDefaultBranch (Owner repo) (Repo repo),
         Call_DetectCurrentBranch,
         Call_DetectCurrentPullRequestNumber (Owner repo) (Repo repo),
         Call_Now, Call_Environ, Call_Eval (formula cond)])"
    unfolding assms(7) using assms(1-6) by (rule CheckIf_evaluates)
  then have r: "fst (CheckIf w c cond) = CheckIf_result (Eval w (formula cond) vars)"
    by simp
  have 1: "(fst (CheckIf w c cond) = Panic)
        = (\<exists>v. Eval w (formula cond) vars = Inr v \<and> (\<forall>b. v \<noteq> DBool b))"
    unfolding r by (rule CheckIf_result_Panic)
  have 2: "Eval w (formula cond) vars = Inr (DBool b) \<longrightarrow>
      fst (CheckIf w c cond) = Return b None"
    unfolding r by (simp add: CheckIf_result_def)
  have 3: "Eval w (formula cond) vars = Inl err \<longrightarrow>
      fst (CheckIf w c cond) = Return False (Some err)"
    unfolding r by (simp add: CheckIf_result_def)
  show ?thesis
    using 1 2 3 by blast
qed

text \<open>
  C10 at the expression \<^verbatim>\<open>true) ? 1 : (false\<close>: the formula is the conditional
  \<^verbatim>\<open>(true) ? 1 : (false) == true\<close>, the evaluator returns the number 1, and CheckIf
  panics.
\<close>

theorem CheckIf_type_assertion_witness:
  "formula ''true) ? 1 : (false'' = ''(true) ? 1 : (false) == true''
   \<and> fst (CheckIf (std_world (Inr ''main'') (Inr 7)) std_config ''true) ? 1 : (false'')
       = Panic"
proof -
  let ?w = "std_world (Inr ''main'') (Inr 7)"
  let ?e = "\<lparr> Name = ''push'', Payload = EventPayload ''{}'' \<rparr>"
  let ?repo = "\<lparr> Owner = ''k1LoW'', Repo = ''octocov'' \<rparr>"
  let ?c' = "std_config\<lparr>gh := Some (GhClient 0)\<rparr>"
  let ?vars = "CheckIf_variables ?w ?e (isDefaultBranch ?w (GhClient 0) ''main'')
      (isPullRequest ?w (GhClient 0) ?repo)"
  have h: "DecodeGitHubEvent ?w = Inr ?e" "Repository std_config \<noteq> []"
    "gh_Parse ?w (Repository std_config) = Inr ?repo"
    "CheckIf_client ?w std_config = Inr (GhClient 0, ?c', [Call_New])"
    "GetDefaultBranch ?w (GhClient 0) (Owner ?repo) (Repo ?repo) = Inr ''main''"
    by (simp_all add: std_world_def std_config_def CheckIf_client_def)
  have n: "''true) ? 1 : (false'' \<noteq> []" by simp
  have f: "formula ''true) ? 1 : (false'' = ''(true) ? 1 : (false) == true''"
    by (simp add: formula_def)
  have ev: "Eval ?w (formula ''true) ? 1 : (false'') ?vars = Inr (DInt 1)"
    unfolding f by (simp add: std_world_def std_Eval_def)
  have nb: "\<forall>b. DInt 1 \<noteq> DBool b" by simp
  have "fst (CheckIf ?w std_config ''true) ? 1 : (false'') = Panic"
    using CheckIf_type_assertion [OF n h refl] ev nb by blast
  then show ?thesis
    using f by blast
qed

end
